theory Spec2Isabelle
  imports Main "HOL-Library.Word" "HOL-Library.Sublist"
begin

unbundle bit_operations_syntax

section \<open>Common conventions\<close>

text \<open>
  The development embeds three Go sources of the history service: the Cassandra history
  store (\<^verbatim>\<open>cassandraHistoryPersistence.go\<close>), the history replicator
  (\<^verbatim>\<open>historyReplicator.go\<close>) and the active timer queue processor.

  Go's \<^verbatim>\<open>int64\<close> versions, event ids and timestamps are modelled as \<^typ>\<open>int\<close>: the code
  only compares them (the single addition, \<^verbatim>\<open>lastEvent.GetEventId() + 1\<close>, is written where
  it occurs). A \<^verbatim>\<open>[]byte\<close> is a list of 8-bit words; a nil slice and an empty slice are both
  the empty list, since the code only ever tests \<^verbatim>\<open>len(..) == 0\<close>. Logging and metrics calls
  are left out: they touch neither the returned values nor the persisted state.
\<close>

type_synonym byte = "8 word"

text \<open>
  A Go call either returns or panics (nil dereference, index out of range, failed type
  assertion). A function with the Go result \<^verbatim>\<open>(T, error)\<close> returns \<open>Ok v\<close> for \<^verbatim>\<open>(v, nil)\<close> and
  \<open>Err e\<close> for \<^verbatim>\<open>(_, e)\<close>; a function with result \<^verbatim>\<open>error\<close> returns \<open>Ok ()\<close> for nil.
\<close>

datatype workflowState = WorkflowStateCreated | WorkflowStateRunning | WorkflowStateCompleted

text \<open>The error values the three sources create or test for. \<open>ErrorString\<close> is an error made by
  \<^verbatim>\<open>errors.New\<close> or \<^verbatim>\<open>fmt.Errorf\<close>; \<open>PersistenceWorkflowExecutionAlreadyStartedError\<close> carries
  the run id, the state and the start version of the run that exists.\<close>

datatype error =
    EntityNotExistsError
  | InternalServiceError string
  | BadRequestError string
  | RetryTaskError string
  | ServiceBusyError
  | WorkflowExecutionAlreadyStartedError
  | PersistenceWorkflowExecutionAlreadyStartedError string workflowState int
  | ShardOwnershipLostError
  | ErrConflict
  | ErrMaxAttemptsExceeded
  | ErrBufferedEventsLimitExceeded
  | errFailedToAddTimerFiredEvent
  | errFailedToAddTimeoutEvent
  | ErrorString string

datatype 'a result = Ok 'a | Err error | Panic

section \<open>History store: page tokens and history reads\<close>

record historyToken =
  LastEventBatchVersion :: int
  Data :: "byte list"

text \<open>
  \<^verbatim>\<open>encoding/json\<close> is a library outside the repository, so it is a parameter of the model.
  \<open>Marshal\<close> returns the bytes or fails; \<open>Unmarshal data token\<close> decodes into an existing
  token, as \<^verbatim>\<open>json.Unmarshal(data, token)\<close> does, and returns whether it succeeded together
  with the token as the call left it (a failing decode may already have stored some fields).
\<close>

record jsonCodec =
  Marshal :: "historyToken \<Rightarrow> byte list option"
  Unmarshal :: "byte list \<Rightarrow> historyToken \<Rightarrow> bool \<times> historyToken"

definition serializeToken :: "jsonCodec \<Rightarrow> historyToken \<Rightarrow> (byte list) result" where
  "serializeToken json token =
     (if length (Data token) = 0 then Ok []
      else (case Marshal json token of
              None \<Rightarrow> Err (InternalServiceError ''Error generating history event token.'')
            | Some data \<Rightarrow> Ok data))"

text \<open>\<open>EmptyVersion\<close> stands for the constant \<^verbatim>\<open>common.EmptyVersion\<close>, declared outside the
  sources at hand; it is a parameter.\<close>

definition deserializeToken :: "jsonCodec \<Rightarrow> int \<Rightarrow> byte list \<Rightarrow> historyToken result" where
  "deserializeToken json EmptyVersion data =
     (let token = \<lparr>LastEventBatchVersion = EmptyVersion, Data = []\<rparr> in
      if length data = 0 then Ok token
      else (case Unmarshal json data token of
              (True, token') \<Rightarrow> Ok token'
            | (False, token') \<Rightarrow> Ok (token'\<lparr>Data := data\<rparr>)))"

record workflowExecution =
  WorkflowId :: "string option"
  RunId :: "string option"

text \<open>Fields of the request struct carry the prefix \<open>hr_\<close>: record fields are global names
  and \<^verbatim>\<open>DomainID\<close>, \<^verbatim>\<open>NextEventID\<close> and others occur again in the execution info.\<close>

record getWorkflowExecutionHistoryRequest =
  hr_DomainID :: string
  hr_Execution :: workflowExecution
  hr_FirstEventID :: int
  hr_NextEventID :: int
  hr_PageSize :: int
  hr_NextPageToken :: "byte list"

text \<open>One row of the \<^verbatim>\<open>events\<close> table as the query selects it (field \<open>col_x\<close> is column \<open>x\<close>). \<open>event_batch_version\<close> is
  scanned through a pointer and is \<open>None\<close> for a null column.\<close>

record eventsRow =
  col_first_event_id :: int
  col_event_batch_version :: "int option"
  col_data :: "byte list"
  col_data_encoding :: string
  col_data_version :: int

record serializedHistoryEventBatch =
  EncodingType :: string
  Version :: int
  BatchData :: "byte list"

record getWorkflowExecutionHistoryResponse =
  Events :: "serializedHistoryEventBatch list"
  ResponseNextPageToken :: "byte list"

text \<open>The bound query, and what the driver's iterator yields for it: the rows of the page,
  the cursor of the next page and the error \<^verbatim>\<open>iter.Close()\<close> reports, if any.\<close>

record historyQuery =
  qDomainID :: string
  qWorkflowId :: string
  qRunId :: string
  qFirstEventID :: int
  qNextEventID :: int
  qPageSize :: int
  qPageState :: "byte list"

record queryIter =
  iterRows :: "eventsRow list"
  iterPageState :: "byte list"
  iterCloseError :: "string option"

type_synonym session = "historyQuery \<Rightarrow> queryIter option"

definition createSerializedHistoryEventBatch ::
  "int \<Rightarrow> eventsRow \<Rightarrow> int \<times> serializedHistoryEventBatch" where
  "createSerializedHistoryEventBatch EmptyVersion r =
     (let eventBatch = \<lparr>EncodingType = col_data_encoding r, Version = col_data_version r,
                         BatchData = col_data r\<rparr>;
          eventBatchVersion = (case col_event_batch_version r of
                                 None \<Rightarrow> EmptyVersion
                               | Some v \<Rightarrow> v)
      in (eventBatchVersion, eventBatch))"

text \<open>The \<^verbatim>\<open>for iter.MapScan(result)\<close> loop: the state is \<open>(found, response.Events, token)\<close>.\<close>

fun scanRows ::
  "int \<Rightarrow> eventsRow list \<Rightarrow> bool \<times> serializedHistoryEventBatch list \<times> historyToken
     \<Rightarrow> bool \<times> serializedHistoryEventBatch list \<times> historyToken" where
  "scanRows EmptyVersion [] st = st"
| "scanRows EmptyVersion (r # rs) (found, events, token) =
     (let (eventBatchVersion, eventBatch) = createSerializedHistoryEventBatch EmptyVersion r in
      if eventBatchVersion \<ge> LastEventBatchVersion token
      then scanRows EmptyVersion rs
             (True, events @ [eventBatch], token\<lparr>LastEventBatchVersion := eventBatchVersion\<rparr>)
      else scanRows EmptyVersion rs (True, events, token))"

definition GetWorkflowExecutionHistory ::
  "jsonCodec \<Rightarrow> int \<Rightarrow> session \<Rightarrow> getWorkflowExecutionHistoryRequest
     \<Rightarrow> getWorkflowExecutionHistoryResponse result" where
  "GetWorkflowExecutionHistory json EmptyVersion sess request =
     (let execution = hr_Execution request in
      case deserializeToken json EmptyVersion (hr_NextPageToken request) of
        Panic \<Rightarrow> Panic
      | Err e \<Rightarrow> Err e
      | Ok token \<Rightarrow>
        (case WorkflowId execution of
           None \<Rightarrow> Panic
         | Some wid \<Rightarrow>
           (case RunId execution of
              None \<Rightarrow> Panic
            | Some rid \<Rightarrow>
              (case sess \<lparr>qDomainID = hr_DomainID request, qWorkflowId = wid, qRunId = rid,
                          qFirstEventID = hr_FirstEventID request,
                          qNextEventID = hr_NextEventID request,
                          qPageSize = hr_PageSize request, qPageState = Data token\<rparr> of
                 None \<Rightarrow> Err (InternalServiceError
                   ''GetWorkflowExecutionHistory operation failed.  Not able to create query iterator.'')
               | Some iter \<Rightarrow>
                 (let token1 = token\<lparr>Data := iterPageState iter\<rparr>;
                      (found, events, token2) =
                         scanRows EmptyVersion (iterRows iter) (False, [], token1)
                  in case serializeToken json token2 of
                       Panic \<Rightarrow> Panic
                     | Err e \<Rightarrow> Err e
                     | Ok data \<Rightarrow>
                       (case iterCloseError iter of
                          Some msg \<Rightarrow> Err (InternalServiceError
                            (''GetWorkflowExecutionHistory operation failed. Error: '' @ msg))
                        | None \<Rightarrow>
                          if \<not> found \<and> length (hr_NextPageToken request) = 0
                          then Err EntityNotExistsError
                          else Ok \<lparr>Events = events, ResponseNextPageToken = data\<rparr>))))))"

text \<open>The version and the serialized batch of a row, as the loop reads them.\<close>

definition batchVersion :: "int \<Rightarrow> eventsRow \<Rightarrow> int" where
  "batchVersion EmptyVersion r = fst (createSerializedHistoryEventBatch EmptyVersion r)"

definition batchOf :: "int \<Rightarrow> eventsRow \<Rightarrow> serializedHistoryEventBatch" where
  "batchOf EmptyVersion r = snd (createSerializedHistoryEventBatch EmptyVersion r)"

text \<open>Serializing a token and deserializing the result, as a client does that hands the
  \<^verbatim>\<open>NextPageToken\<close> of one response back in the next request.\<close>

definition tokenRoundTrip :: "jsonCodec \<Rightarrow> int \<Rightarrow> historyToken \<Rightarrow> historyToken result" where
  "tokenRoundTrip json EmptyVersion t =
     (case serializeToken json t of
        Ok d \<Rightarrow> deserializeToken json EmptyVersion d
      | Err e \<Rightarrow> Err e
      | Panic \<Rightarrow> Panic)"

text \<open>A small codec to run the model on concrete inputs: the version in the first byte, the
  cursor after it. It stands in for \<^verbatim>\<open>encoding/json\<close> in examples only.\<close>

definition sampleCodec :: jsonCodec where
  "sampleCodec =
     \<lparr>Marshal = (\<lambda>t. Some (word_of_int (LastEventBatchVersion t) # Data t)),
      Unmarshal = (\<lambda>d tok. case d of [] \<Rightarrow> (False, tok)
                     | b # bs \<Rightarrow> (True, \<lparr>LastEventBatchVersion = uint b, Data = bs\<rparr>))\<rparr>"

text \<open>Sample rows, requests and sessions for the examples.\<close>

definition sampleRow :: "int \<Rightarrow> eventsRow" where
  "sampleRow v = \<lparr>col_first_event_id = 1, col_event_batch_version = Some v, col_data = [],
                  col_data_encoding = ''json'', col_data_version = 1\<rparr>"

definition sampleHistoryRequest :: "byte list \<Rightarrow> getWorkflowExecutionHistoryRequest" where
  "sampleHistoryRequest pageToken =
     \<lparr>hr_DomainID = ''domain'',
      hr_Execution = \<lparr>WorkflowId = Some ''wf'', RunId = Some ''run''\<rparr>,
      hr_FirstEventID = 1, hr_NextEventID = 10, hr_PageSize = 100,
      hr_NextPageToken = pageToken\<rparr>"

definition sampleSession :: "eventsRow list \<Rightarrow> session" where
  "sampleSession rows = (\<lambda>q. Some \<lparr>iterRows = rows, iterPageState = [2], iterCloseError = None\<rparr>)"

section \<open>History replicator: data\<close>

text \<open>
  The replicator works on the mutable state of a run, on replication requests and on
  collaborators whose code is outside the sources at hand (shard, caches, state builder,
  conflict resolver, cluster metadata). Each collaborator call is recorded in a trace, in
  call order, and answered by a response function of the environment, which sees the
  trace up to and including the call it answers (and, for convenience, the arguments
  again): the answers may depend on everything that happened before.
\<close>

datatype eventType = EventTypeWorkflowExecutionStarted | EventTypeOther string

record historyEvent =
  EventId :: int
  EventVersion :: int
  Timestamp :: int
  EventType :: eventType
  ContinuedExecutionRunId :: string

record replicationInfo =
  ri_Version :: int
  ri_LastEventId :: int

text \<open>A request is a pointer in Go and so are its \<^verbatim>\<open>WorkflowExecution\<close>, \<^verbatim>\<open>History\<close> and
  \<^verbatim>\<open>NewRunHistory\<close>; \<open>None\<close> is nil. The generated getters of scalar fields are nil-safe and
  are read as plain fields.\<close>

record replicateEventsRequest =
  SourceCluster :: string
  DomainUUID :: "string option"
  WorkflowExecution :: "workflowExecution option"
  FirstEventId :: int
  NextEventId :: int
  RequestVersion :: int
  ReplicationInfo :: "string \<rightharpoonup> replicationInfo"
  History :: "historyEvent list option"
  NewRunHistory :: "historyEvent list option"
  ForceBufferEvents :: bool

datatype closeStatus =
    WorkflowCloseStatusNone | WorkflowCloseStatusCompleted | WorkflowCloseStatusFailed
  | WorkflowCloseStatusCanceled | WorkflowCloseStatusTerminated
  | WorkflowCloseStatusContinuedAsNew | WorkflowCloseStatusTimedOut

record executionInfo =
  DomainID :: string
  WorkflowID :: string
  RunID :: string
  ParentDomainID :: string
  ParentWorkflowID :: string
  ParentRunID :: string
  InitiatedID :: int
  TaskList :: string
  WorkflowTypeName :: string
  WorkflowTimeout :: int
  DecisionTimeoutValue :: int
  CreateRequestID :: string
  CloseStatus :: closeStatus
  NextEventID :: int
  LastFirstEventID :: int
  StartTimestamp :: int

record replicationState =
  CurrentVersion :: int
  StartVersion :: int
  LastWriteVersion :: int
  LastWriteEventID :: int
  LastReplicationInfo :: "string \<rightharpoonup> replicationInfo"

record bufferedReplicationTask =
  bt_FirstEventID :: int
  bt_NextEventID :: int
  bt_Version :: int
  bt_History :: "historyEvent list option"
  bt_NewRunHistory :: "historyEvent list option"

record mutableState =
  ms_executionInfo :: executionInfo
  ms_replicationState :: replicationState
  ms_bufferedReplicationTasks :: "int \<rightharpoonup> bufferedReplicationTask"

record decisionInfo =
  di_Version :: int
  di_ScheduleID :: int
  di_StartedID :: int
  di_DecisionTimeout :: int
  di_Attempt :: int

record task =
  task_Kind :: string
  task_VisibilityTimestamp :: int
  task_Version :: int
  task_EventID :: int
  task_TimeoutType :: int

record appendHistoryEventsRequest =
  ah_DomainID :: string
  ah_Execution :: workflowExecution
  ah_TransactionID :: int
  ah_FirstEventID :: int
  ah_EventBatchVersion :: int
  ah_Events :: serializedHistoryEventBatch

record createWorkflowExecutionRequest =
  cw_RequestID :: string
  cw_DomainID :: string
  cw_Execution :: workflowExecution
  cw_ParentDomainID :: string
  cw_ParentExecution :: "workflowExecution option"
  cw_InitiatedID :: int
  cw_TaskList :: string
  cw_WorkflowTypeName :: string
  cw_WorkflowTimeout :: int
  cw_DecisionTimeoutValue :: int
  cw_NextEventID :: int
  cw_LastProcessedEvent :: int
  cw_TransferTasks :: "task list"
  cw_DecisionVersion :: int
  cw_DecisionScheduleID :: int
  cw_DecisionStartedID :: int
  cw_DecisionStartToCloseTimeout :: int
  cw_TimerTasks :: "task list"
  cw_ContinueAsNew :: bool
  cw_PreviousRunID :: string
  cw_ReplicationState :: replicationState

text \<open>A workflow execution context is the cache entry of one execution; the model names
  it by its key.\<close>

record workflowExecutionContext =
  ctx_domainID :: string
  ctx_execution :: workflowExecution

text \<open>What \<^verbatim>\<open>sBuilder.applyEvents\<close> hands back, with the tasks the state builder collected.\<close>

record applyEventsResult =
  ae_lastEvent :: historyEvent
  ae_di :: "decisionInfo option"
  ae_newRunStateBuilder :: "mutableState option"
  ae_transferTasks :: "task list"
  ae_timerTasks :: "task list"
  ae_newRunTransferTasks :: "task list"
  ae_newRunTimerTasks :: "task list"

text \<open>The calls to collaborators, with their arguments. The three commits through the
  context (\<^verbatim>\<open>replicateContinueAsNewWorkflowExecution\<close>, \<^verbatim>\<open>replicateWorkflowExecution\<close>,
  \<^verbatim>\<open>updateHelper\<close>) and \<^verbatim>\<open>applyEvents\<close> work on the mutable state held by the caller; their
  response functions take it and give it back as the call left it.\<close>

datatype call =
    HistoryCacheGetOrCreateWorkflowExecution string workflowExecution
  | Release workflowExecutionContext "error option"
  | ContextLoadWorkflowExecution workflowExecutionContext
  | ShardGetNextTransferTaskID
  | ShardAppendHistoryEvents appendHistoryEventsRequest
  | ShardCreateWorkflowExecution createWorkflowExecutionRequest
  | HistoryMgrDeleteWorkflowExecutionHistory string workflowExecution
  | HistoryMgrGetWorkflowExecutionHistory getWorkflowExecutionHistoryRequest
  | DomainCacheGetDomainByID string
  | HistoryEngineTerminateWorkflowExecution string string string string
  | StateBuilderApplyEvents string string workflowExecution "historyEvent list option"
      "historyEvent list option"
  | ContextReplicateContinueAsNewWorkflowExecution workflowExecutionContext mutableState
      "task list" "task list" int
  | ContextReplicateWorkflowExecution workflowExecutionContext replicateEventsRequest
      "task list" "task list" int int int
  | ContextUpdateHelper workflowExecutionContext "task list" "task list" int int bool string
  | ConflictResolverReset workflowExecutionContext string int int
  | UuidNew
  | ShardSetCurrentTime string int
  | NotifyNewTask string "task list"
  | NotifyNewTimers string int "task list"

type_synonym trace = "call list"

record env =
  EmptyEventID :: int
  EmptyVersion :: int
  FirstEventID :: int
  defaultHistoryPageSize :: int
  StandbyClusterDelay :: int
  validateDomainUUID :: "string option \<Rightarrow> string result"
  ClusterNameForFailoverVersion :: "int \<Rightarrow> string"
  IsVersionFromSameCluster :: "int \<Rightarrow> int \<Rightarrow> bool"
  Serialize :: "historyEvent list \<Rightarrow> serializedHistoryEventBatch result"
  SetSerializedHistoryDefaults :: "serializedHistoryEventBatch \<Rightarrow> serializedHistoryEventBatch"
  HistorySerializerFactory_Get :: "string \<Rightarrow> unit result"
  Deserialize :: "serializedHistoryEventBatch \<Rightarrow> (historyEvent list) result"
  setTaskInfo :: "int \<Rightarrow> int \<Rightarrow> task list \<Rightarrow> task list \<Rightarrow> task list \<times> task list"
  UpdateReplicationStateLastEventID :: "mutableState \<Rightarrow> string \<Rightarrow> int \<Rightarrow> int \<Rightarrow> mutableState"
  BufferCapacityExceeded :: "mutableState \<Rightarrow> bool"
  getNewMutableState :: "int \<Rightarrow> mutableState"
  uuid_New :: "trace \<Rightarrow> string"
  historyCache_getOrCreateWorkflowExecution :: "trace \<Rightarrow> string \<Rightarrow> workflowExecution \<Rightarrow> unit result"
  context_loadWorkflowExecution :: "trace \<Rightarrow> workflowExecutionContext \<Rightarrow> mutableState result"
  shard_GetNextTransferTaskID :: "trace \<Rightarrow> int result"
  shard_AppendHistoryEvents :: "trace \<Rightarrow> appendHistoryEventsRequest \<Rightarrow> unit result"
  shard_CreateWorkflowExecution :: "trace \<Rightarrow> createWorkflowExecutionRequest \<Rightarrow> unit result"
  historyMgr_GetWorkflowExecutionHistory ::
    "trace \<Rightarrow> getWorkflowExecutionHistoryRequest \<Rightarrow> getWorkflowExecutionHistoryResponse result"
  domainCache_GetDomainByID :: "trace \<Rightarrow> string \<Rightarrow> string result"
  historyEngine_TerminateWorkflowExecution :: "trace \<Rightarrow> string \<Rightarrow> string \<Rightarrow> string \<Rightarrow> unit result"
  sBuilder_applyEvents :: "trace \<Rightarrow> mutableState \<Rightarrow> applyEventsResult result \<times> mutableState"
  context_replicateContinueAsNewWorkflowExecution ::
    "trace \<Rightarrow> mutableState \<Rightarrow> unit result \<times> mutableState"
  context_replicateWorkflowExecution :: "trace \<Rightarrow> mutableState \<Rightarrow> unit result \<times> mutableState"
  context_updateHelper :: "trace \<Rightarrow> mutableState \<Rightarrow> unit result \<times> mutableState"
  resolver_reset :: "trace \<Rightarrow> workflowExecutionContext \<Rightarrow> string \<Rightarrow> int \<Rightarrow> int \<Rightarrow> mutableState result"

section \<open>History replicator: operations\<close>

text \<open>The replicator's sentinel errors, as the package declares them.\<close>

definition ErrRetryEntityNotExists :: error where
  "ErrRetryEntityNotExists = RetryTaskError ''workflow execution not found''"

definition ErrRetryExistingWorkflow :: error where
  "ErrRetryExistingWorkflow = RetryTaskError ''workflow with same version is running''"

definition ErrRetryBufferEvents :: error where
  "ErrRetryBufferEvents = RetryTaskError ''retry on applying buffer events''"

definition ErrRetryExecutionAlreadyStarted :: error where
  "ErrRetryExecutionAlreadyStarted = RetryTaskError ''another workflow execution is running''"

definition ErrMissingReplicationInfo :: error where
  "ErrMissingReplicationInfo =
     BadRequestError ''replication task is missing cluster replication info''"

definition ErrCorruptedReplicationInfo :: error where
  "ErrCorruptedReplicationInfo =
     BadRequestError ''replication task is has corrupted cluster replication info''"

definition errNoHistoryFound :: error where
  "errNoHistoryFound = ErrorString ''no history events found''"

text \<open>A failed call hands its failure on unchanged; \<open>failure\<close> only changes the type.\<close>

fun failure :: "'a result \<Rightarrow> 'b result" where
  "failure (Err e) = Err e"
| "failure _ = Panic"

subsection \<open>Mutable state accessors\<close>

text \<open>
  Modelled from the spec: the mutable-state builder (the implementation of the
  \<^verbatim>\<open>mutableState\<close> interface) is not among the sources. The spec, section 3 and the table of
  section 4.2, gives the accessors, says that a run is running as derived from its close
  status, and that buffered replication tasks are a mapping from \<open>firstEventID\<close> to a
  batch: \<open>BufferReplicationTask\<close> stores the batch under the request's first event id and
  fails when the capacity is exceeded, \<open>GetBufferedReplicationTask\<close> returns the batch stored
  under an id if any, and the flush deletes a batch from the buffer by its id.
\<close>

definition GetExecutionInfo :: "mutableState \<Rightarrow> executionInfo" where
  "GetExecutionInfo ms = ms_executionInfo ms"

definition GetReplicationState :: "mutableState \<Rightarrow> replicationState" where
  "GetReplicationState ms = ms_replicationState ms"

definition GetNextEventID :: "mutableState \<Rightarrow> int" where
  "GetNextEventID ms = NextEventID (ms_executionInfo ms)"

definition GetLastWriteVersion :: "mutableState \<Rightarrow> int" where
  "GetLastWriteVersion ms = LastWriteVersion (ms_replicationState ms)"

definition GetCurrentVersion :: "mutableState \<Rightarrow> int" where
  "GetCurrentVersion ms = CurrentVersion (ms_replicationState ms)"

definition IsWorkflowExecutionRunning :: "mutableState \<Rightarrow> bool" where
  "IsWorkflowExecutionRunning ms = (CloseStatus (ms_executionInfo ms) = WorkflowCloseStatusNone)"

definition HasBufferedReplicationTasks :: "mutableState \<Rightarrow> bool" where
  "HasBufferedReplicationTasks ms = (ms_bufferedReplicationTasks ms \<noteq> Map.empty)"

definition GetBufferedReplicationTask :: "mutableState \<Rightarrow> int \<Rightarrow> bufferedReplicationTask option" where
  "GetBufferedReplicationTask ms firstEventID = ms_bufferedReplicationTasks ms firstEventID"

definition DeleteBufferedReplicationTask :: "mutableState \<Rightarrow> int \<Rightarrow> mutableState" where
  "DeleteBufferedReplicationTask ms firstEventID =
     ms\<lparr>ms_bufferedReplicationTasks := (ms_bufferedReplicationTasks ms)(firstEventID := None)\<rparr>"

definition GetBufferedHistory :: "historyEvent list option \<Rightarrow> historyEvent list option" where
  "GetBufferedHistory h = h"

definition BufferReplicationTask ::
  "env \<Rightarrow> mutableState \<Rightarrow> replicateEventsRequest \<Rightarrow> unit result \<times> mutableState" where
  "BufferReplicationTask env ms request =
     (if BufferCapacityExceeded env ms then (Err ErrBufferedEventsLimitExceeded, ms)
      else (Ok (),
            ms\<lparr>ms_bufferedReplicationTasks := (ms_bufferedReplicationTasks ms)
                 (FirstEventId request \<mapsto>
                    \<lparr>bt_FirstEventID = FirstEventId request,
                     bt_NextEventID = NextEventId request,
                     bt_Version = RequestVersion request,
                     bt_History = History request,
                     bt_NewRunHistory = NewRunHistory request\<rparr>)\<rparr>))"

subsection \<open>Helpers of the replicator\<close>

definition getCurrentWorkflowMutableState ::
  "env \<Rightarrow> string \<Rightarrow> string \<Rightarrow> trace
     \<Rightarrow> (workflowExecutionContext \<times> mutableState) result \<times> trace" where
  "getCurrentWorkflowMutableState env domainID workflowID tr =
     (let execution = \<lparr>WorkflowId = Some workflowID, RunId = None\<rparr>;
          tr1 = tr @ [HistoryCacheGetOrCreateWorkflowExecution domainID execution] in
      case historyCache_getOrCreateWorkflowExecution env tr1 domainID execution of
        Ok _ \<Rightarrow>
          (let context = \<lparr>ctx_domainID = domainID, ctx_execution = execution\<rparr>;
               tr2 = tr1 @ [ContextLoadWorkflowExecution context] in
           case context_loadWorkflowExecution env tr2 context of
             Ok msBuilder \<Rightarrow> (Ok (context, msBuilder), tr2)
           | Err e \<Rightarrow> (Err e, tr2 @ [Release context (Some e)])
           | Panic \<Rightarrow> (Panic, tr2))
      | r \<Rightarrow> (failure r, tr1))"

definition terminateWorkflow ::
  "env \<Rightarrow> string \<Rightarrow> string \<Rightarrow> string \<Rightarrow> trace \<Rightarrow> unit result \<times> trace" where
  "terminateWorkflow env domainID workflowID runID tr =
     (let tr1 = tr @ [DomainCacheGetDomainByID domainID] in
      case domainCache_GetDomainByID env tr1 domainID of
        Ok domainName \<Rightarrow>
          (let tr2 = tr1 @ [HistoryEngineTerminateWorkflowExecution domainID domainName
                              workflowID runID] in
           (historyEngine_TerminateWorkflowExecution env tr2 domainID workflowID runID, tr2))
      | r \<Rightarrow> (failure r, tr1))"

subsection \<open>\<^verbatim>\<open>replicateWorkflowStarted\<close>\<close>

text \<open>The closures \<^verbatim>\<open>createWorkflow\<close> and \<^verbatim>\<open>deleteHistory\<close>. The first takes the request as far
  as the enclosing function has fixed it; the second ignores the error of the delete.\<close>

definition createWorkflow ::
  "env \<Rightarrow> createWorkflowExecutionRequest \<Rightarrow> bool \<Rightarrow> string \<Rightarrow> trace \<Rightarrow> unit result \<times> trace" where
  "createWorkflow env req isBrandNew prevRunID tr =
     (let req' = req\<lparr>cw_ContinueAsNew := \<not> isBrandNew, cw_PreviousRunID := prevRunID\<rparr>;
          tr1 = tr @ [ShardCreateWorkflowExecution req'] in
      (shard_CreateWorkflowExecution env tr1 req', tr1))"

definition deleteHistory :: "string \<Rightarrow> workflowExecution \<Rightarrow> trace \<Rightarrow> trace" where
  "deleteHistory domainID execution tr =
     tr @ [HistoryMgrDeleteWorkflowExecutionHistory domainID execution]"

text \<open>
  \<^verbatim>\<open>replicateWorkflowStarted\<close> calls \<^verbatim>\<open>flushCurrentWorkflowBuffer\<close>, which calls \<^verbatim>\<open>FlushBuffer\<close>,
  which calls \<^verbatim>\<open>ApplyReplicationTask\<close>, which calls \<^verbatim>\<open>replicateWorkflowStarted\<close> again for a
  buffered batch that begins with a start event. The functions of this cycle are defined
  in the order of the calls, each with the flush of the current workflow's buffer as its
  first argument \<open>flushCurrent\<close>; \<open>flushCurrentWorkflowBuffer\<close>, defined last, closes the
  cycle. A call that never returns has the value \<open>None\<close>, and so has every call that waits
  for it.
\<close>

type_synonym flushCurrent = "string \<Rightarrow> string \<Rightarrow> trace \<Rightarrow> (unit result \<times> trace) option"

text \<open>The part of \<^verbatim>\<open>replicateWorkflowStarted\<close> after the first create has failed with
  \<^verbatim>\<open>WorkflowExecutionAlreadyStartedError\<close>. The flush is asked for
  \<^verbatim>\<open>execution.GetWorkflowId()\<close>, the empty string for a nil id.\<close>

definition replicateWorkflowStarted_alreadyStarted ::
  "flushCurrent \<Rightarrow> env \<Rightarrow> createWorkflowExecutionRequest \<Rightarrow> executionInfo \<Rightarrow> workflowExecution
     \<Rightarrow> int \<Rightarrow> string \<Rightarrow> workflowState \<Rightarrow> int \<Rightarrow> trace \<Rightarrow> (unit result \<times> trace) option" where
  "replicateWorkflowStarted_alreadyStarted flushCurrent env req executionInfo execution
       incomingVersion currentRunID currentState currentStartVersion tr =
     (let domainID = DomainID executionInfo in
      if Some currentRunID = RunId execution then Some (Ok (), tr)
      else if currentState = WorkflowStateCompleted then
        (if currentStartVersion > incomingVersion
         then Some (Ok (), deleteHistory domainID execution tr)
         else Some (createWorkflow env req False currentRunID tr))
      else if currentStartVersion > incomingVersion
        then Some (Ok (), deleteHistory domainID execution tr)
      else if currentStartVersion = incomingVersion then
        (case flushCurrent domainID
                (case WorkflowId execution of None \<Rightarrow> [] | Some w \<Rightarrow> w) tr of
           None \<Rightarrow> None
         | Some (Ok _, tr1) \<Rightarrow> Some (Err ErrRetryExistingWorkflow, tr1)
         | Some (r, tr1) \<Rightarrow> Some (r, tr1))
      else
        (case terminateWorkflow env domainID (WorkflowID executionInfo) currentRunID tr of
           (Ok _, tr1) \<Rightarrow> Some (createWorkflow env req False currentRunID tr1)
         | (Err EntityNotExistsError, tr1) \<Rightarrow> Some (createWorkflow env req False currentRunID tr1)
         | (r, tr1) \<Rightarrow> Some (failure r, tr1)))"

text \<open>The part of \<^verbatim>\<open>replicateWorkflowStarted\<close> from \<^verbatim>\<open>// try to create the workflow execution\<close>
  on: everything that runs after \<^verbatim>\<open>AppendHistoryEvents\<close> has succeeded and the create request
  is prepared.\<close>

definition replicateWorkflowStarted_create ::
  "flushCurrent \<Rightarrow> env \<Rightarrow> createWorkflowExecutionRequest \<Rightarrow> executionInfo \<Rightarrow> workflowExecution
     \<Rightarrow> int \<Rightarrow> trace \<Rightarrow> (unit result \<times> trace) option" where
  "replicateWorkflowStarted_create flushCurrent env req executionInfo execution incomingVersion tr =
     (case createWorkflow env req True [] tr of
        (Ok _, tr1) \<Rightarrow> Some (Ok (), tr1)
      | (Err (PersistenceWorkflowExecutionAlreadyStartedError
                currentRunID currentState currentStartVersion), tr1) \<Rightarrow>
          replicateWorkflowStarted_alreadyStarted flushCurrent env req executionInfo execution
            incomingVersion currentRunID currentState currentStartVersion tr1
      | (Err e, tr1) \<Rightarrow> Some (Err e, deleteHistory (DomainID executionInfo) execution tr1)
      | (Panic, tr1) \<Rightarrow> Some (Panic, tr1))"

definition replicateWorkflowStarted ::
  "flushCurrent \<Rightarrow> env \<Rightarrow> mutableState \<Rightarrow> decisionInfo option \<Rightarrow> string \<Rightarrow> historyEvent list
     \<Rightarrow> task list \<Rightarrow> task list \<Rightarrow> trace \<Rightarrow> (unit result \<times> mutableState \<times> trace) option" where
  "replicateWorkflowStarted flushCurrent env msBuilder di sourceCluster history
       sbTransferTasks sbTimerTasks tr =
     (let executionInfo = GetExecutionInfo msBuilder;
          domainID = DomainID executionInfo;
          execution = \<lparr>WorkflowId = Some (WorkflowID executionInfo),
                       RunId = Some (RunID executionInfo)\<rparr>;
          hasParent = (ParentDomainID executionInfo \<noteq> []);
          initiatedID = (if hasParent then InitiatedID executionInfo else EmptyEventID env);
          parentDomainID = (if hasParent then ParentDomainID executionInfo else []);
          parentExecution =
            (if hasParent
             then Some \<lparr>WorkflowId = Some (ParentWorkflowID executionInfo),
                        RunId = Some (ParentRunID executionInfo)\<rparr>
             else None)
      in
      case history of
        [] \<Rightarrow> Some (Panic, msBuilder, tr)
      | firstEvent # _ \<Rightarrow>
        (let lastEvent = last history in
         case Serialize env history of
           Ok serializedHistory \<Rightarrow>
             (let tr1 = tr @ [ShardGetNextTransferTaskID] in
              case shard_GetNextTransferTaskID env tr1 of
                Ok transactionID \<Rightarrow>
                  (let appendReq =
                         \<lparr>ah_DomainID = domainID, ah_Execution = execution,
                          ah_TransactionID = transactionID,
                          ah_FirstEventID = EventId firstEvent,
                          ah_EventBatchVersion = EventVersion firstEvent,
                          ah_Events = serializedHistory\<rparr>;
                       tr2 = tr1 @ [ShardAppendHistoryEvents appendReq] in
                   case shard_AppendHistoryEvents env tr2 appendReq of
                     Ok _ \<Rightarrow>
                       (let executionInfo1 =
                              executionInfo\<lparr>LastFirstEventID := EventId firstEvent,
                                             NextEventID := EventId lastEvent + 1\<rparr>;
                            incomingVersion = EventVersion firstEvent;
                            msBuilder1 =
                              UpdateReplicationStateLastEventID env
                                (msBuilder\<lparr>ms_executionInfo := executionInfo1\<rparr>)
                                sourceCluster incomingVersion (EventId lastEvent);
                            replicationState = GetReplicationState msBuilder1;
                            (transferTasks, timerTasks) =
                              setTaskInfo env (GetCurrentVersion msBuilder1) (Timestamp lastEvent)
                                sbTransferTasks sbTimerTasks;
                            req =
                              \<lparr>cw_RequestID = CreateRequestID executionInfo1,
                               cw_DomainID = domainID,
                               cw_Execution = execution,
                               cw_ParentDomainID = parentDomainID,
                               cw_ParentExecution = parentExecution,
                               cw_InitiatedID = initiatedID,
                               cw_TaskList = TaskList executionInfo1,
                               cw_WorkflowTypeName = WorkflowTypeName executionInfo1,
                               cw_WorkflowTimeout = WorkflowTimeout executionInfo1,
                               cw_DecisionTimeoutValue = DecisionTimeoutValue executionInfo1,
                               cw_NextEventID = GetNextEventID msBuilder1,
                               cw_LastProcessedEvent = EmptyEventID env,
                               cw_TransferTasks = transferTasks,
                               cw_DecisionVersion =
                                 (case di of None \<Rightarrow> EmptyVersion env | Some d \<Rightarrow> di_Version d),
                               cw_DecisionScheduleID =
                                 (case di of None \<Rightarrow> EmptyEventID env | Some d \<Rightarrow> di_ScheduleID d),
                               cw_DecisionStartedID =
                                 (case di of None \<Rightarrow> EmptyEventID env | Some d \<Rightarrow> di_StartedID d),
                               cw_DecisionStartToCloseTimeout =
                                 (case di of None \<Rightarrow> 0 | Some d \<Rightarrow> di_DecisionTimeout d),
                               cw_TimerTasks = timerTasks,
                               cw_ContinueAsNew = False,
                               cw_PreviousRunID = [],
                               cw_ReplicationState = replicationState\<rparr>
                        in
                        case replicateWorkflowStarted_create flushCurrent env req executionInfo1
                               execution incomingVersion tr2 of
                          None \<Rightarrow> None
                        | Some (r, tr3) \<Rightarrow> Some (r, msBuilder1, tr3))
                   | r \<Rightarrow> Some (failure r, msBuilder, tr2))
              | r \<Rightarrow> Some (failure r, msBuilder, tr1))
         | r \<Rightarrow> Some (failure r, msBuilder, tr)))"

subsection \<open>\<^verbatim>\<open>ApplyReplicationTask\<close> and \<^verbatim>\<open>FlushBuffer\<close>\<close>

definition notify :: "env \<Rightarrow> string \<Rightarrow> int \<Rightarrow> task list \<Rightarrow> task list \<Rightarrow> trace \<Rightarrow> trace" where
  "notify env clusterName now transferTasks timerTasks tr =
     (let now' = now - StandbyClusterDelay env in
      tr @ [ShardSetCurrentTime clusterName now', NotifyNewTask clusterName transferTasks,
            NotifyNewTimers clusterName now' timerTasks])"

text \<open>The \<^verbatim>\<open>switch\<close> on the first event's type inside \<^verbatim>\<open>ApplyReplicationTask\<close>, and the
  notification that follows a commit without error. \<^verbatim>\<open>setTaskInfo\<close> updates the tasks in
  place, so after \<^verbatim>\<open>replicateWorkflowStarted\<close> the notification carries the updated tasks.\<close>

definition ApplyReplicationTask_commit ::
  "flushCurrent \<Rightarrow> env \<Rightarrow> workflowExecutionContext \<Rightarrow> mutableState \<Rightarrow> replicateEventsRequest
     \<Rightarrow> historyEvent list \<Rightarrow> applyEventsResult \<Rightarrow> trace
     \<Rightarrow> (unit result \<times> mutableState \<times> trace) option" where
  "ApplyReplicationTask_commit flushCurrent env context msBuilder request events ae tr =
     (let lastEvent = ae_lastEvent ae in
      case events of
        [] \<Rightarrow> Some (Panic, msBuilder, tr)
      | firstEvent # _ \<Rightarrow>
        (case EventType firstEvent of
           EventTypeWorkflowExecutionStarted \<Rightarrow>
             (case replicateWorkflowStarted flushCurrent env msBuilder (ae_di ae)
                     (SourceCluster request) events (ae_transferTasks ae) (ae_timerTasks ae) tr of
                None \<Rightarrow> None
              | Some (Ok _, ms1, tr1) \<Rightarrow>
                  (let (transferTasks, timerTasks) =
                         setTaskInfo env (GetCurrentVersion ms1) (Timestamp (last events))
                           (ae_transferTasks ae) (ae_timerTasks ae) in
                   Some (Ok (), ms1, notify env (SourceCluster request) (Timestamp lastEvent)
                                       transferTasks timerTasks tr1))
              | Some other \<Rightarrow> Some other)
         | _ \<Rightarrow>
             (let tr1 = tr @ [ShardGetNextTransferTaskID] in
              case shard_GetNextTransferTaskID env tr1 of
                Ok transactionID \<Rightarrow>
                  (let now = Timestamp lastEvent;
                       tr2 = tr1 @ [ContextReplicateWorkflowExecution context request
                                      (ae_transferTasks ae) (ae_timerTasks ae)
                                      (EventId lastEvent) transactionID now] in
                   case context_replicateWorkflowExecution env tr2 msBuilder of
                     (Ok _, ms1) \<Rightarrow>
                       Some (Ok (), ms1, notify env (SourceCluster request) now
                                           (ae_transferTasks ae) (ae_timerTasks ae) tr2)
                   | (r, ms1) \<Rightarrow> Some (r, ms1, tr2))
              | r \<Rightarrow> Some (failure r, msBuilder, tr1))))"

definition ApplyReplicationTask ::
  "flushCurrent \<Rightarrow> env \<Rightarrow> workflowExecutionContext \<Rightarrow> mutableState \<Rightarrow> replicateEventsRequest
     \<Rightarrow> trace \<Rightarrow> (unit result \<times> mutableState \<times> trace) option" where
  "ApplyReplicationTask flushCurrent env context msBuilder request tr =
     (case validateDomainUUID env (DomainUUID request) of
        Ok domainID \<Rightarrow>
          (case History request of
             None \<Rightarrow> Some (Panic, msBuilder, tr)
           | Some events \<Rightarrow>
             if length events = 0 then Some (Ok (), msBuilder, tr)
             else
               (case WorkflowExecution request of
                  None \<Rightarrow> Some (Panic, msBuilder, tr)
                | Some execution \<Rightarrow>
                  (let tr1 = tr @ [UuidNew];
                       requestID = uuid_New env tr1;
                       tr2 = tr1 @ [StateBuilderApplyEvents domainID requestID execution
                                      (History request) (NewRunHistory request)] in
                   case sBuilder_applyEvents env tr2 msBuilder of
                     (Ok ae, ms1) \<Rightarrow>
                       (case ae_newRunStateBuilder ae of
                          None \<Rightarrow>
                            ApplyReplicationTask_commit flushCurrent env context ms1 request
                              events ae tr2
                        | Some newRunStateBuilder \<Rightarrow>
                            (let tr3 = tr2 @ [ShardGetNextTransferTaskID] in
                             case shard_GetNextTransferTaskID env tr3 of
                               Ok transactionID \<Rightarrow>
                                 (let tr4 = tr3 @ [ContextReplicateContinueAsNewWorkflowExecution
                                                     context newRunStateBuilder
                                                     (ae_newRunTransferTasks ae)
                                                     (ae_newRunTimerTasks ae) transactionID] in
                                  case context_replicateContinueAsNewWorkflowExecution env tr4 ms1 of
                                    (Ok _, ms2) \<Rightarrow>
                                      ApplyReplicationTask_commit flushCurrent env context ms2
                                        request events ae tr4
                                  | (r, ms2) \<Rightarrow> Some (failure r, ms2, tr4))
                             | r \<Rightarrow> Some (failure r, ms1, tr3)))
                   | (r, ms1) \<Rightarrow> Some (failure r, ms1, tr2))))
      | r \<Rightarrow> Some (failure r, msBuilder, tr))"

text \<open>
  The loop of \<^verbatim>\<open>FlushBuffer\<close>. Nothing in the code bounds its iterations, so it is a partial
  function: \<open>None\<close> stands for a loop that never ends, or that waits for an application that
  never returns. \<open>domainID\<close> and \<open>execution\<close> are read once, before the loop.
\<close>

partial_function (option) FlushBuffer_loop ::
  "flushCurrent \<Rightarrow> env \<Rightarrow> workflowExecutionContext \<Rightarrow> string \<Rightarrow> workflowExecution
     \<Rightarrow> mutableState \<Rightarrow> trace \<Rightarrow> (unit result \<times> mutableState \<times> trace) option" where
  "FlushBuffer_loop flushCurrent env context domainID execution msBuilder tr =
     (if HasBufferedReplicationTasks msBuilder then
        (let nextEventID = GetNextEventID msBuilder in
         case GetBufferedReplicationTask msBuilder nextEventID of
           None \<Rightarrow> Some (Ok (), msBuilder, tr)
         | Some bt \<Rightarrow>
           (let msBuilder1 = DeleteBufferedReplicationTask msBuilder nextEventID;
                sourceCluster = ClusterNameForFailoverVersion env (bt_Version bt);
                req = \<lparr>SourceCluster = sourceCluster,
                       DomainUUID = Some domainID,
                       WorkflowExecution = Some execution,
                       FirstEventId = bt_FirstEventID bt,
                       NextEventId = bt_NextEventID bt,
                       RequestVersion = bt_Version bt,
                       ReplicationInfo = Map.empty,
                       History = GetBufferedHistory (bt_History bt),
                       NewRunHistory = GetBufferedHistory (bt_NewRunHistory bt),
                       ForceBufferEvents = False\<rparr>
            in case ApplyReplicationTask flushCurrent env context msBuilder1 req tr of
                 None \<Rightarrow> None
               | Some (Ok _, msBuilder2, tr2) \<Rightarrow>
                   FlushBuffer_loop flushCurrent env context domainID execution msBuilder2 tr2
               | Some (r, msBuilder2, tr2) \<Rightarrow> Some (r, msBuilder2, tr2)))
      else Some (Ok (), msBuilder, tr))"

definition FlushBuffer ::
  "flushCurrent \<Rightarrow> env \<Rightarrow> workflowExecutionContext \<Rightarrow> mutableState \<Rightarrow> trace
     \<Rightarrow> (unit result \<times> mutableState \<times> trace) option" where
  "FlushBuffer flushCurrent env context msBuilder tr =
     (let domainID = DomainID (GetExecutionInfo msBuilder);
          execution = \<lparr>WorkflowId = Some (WorkflowID (GetExecutionInfo msBuilder)),
                       RunId = Some (RunID (GetExecutionInfo msBuilder))\<rparr>
      in FlushBuffer_loop flushCurrent env context domainID execution msBuilder tr)"

text \<open>
  \<^verbatim>\<open>flushCurrentWorkflowBuffer\<close> closes the cycle. Its first argument bounds how many flushes
  of a current workflow's buffer may be under way at once, one inside the application of
  a batch of the other: a flush that would be one more does not return. With \<open>depth\<close> chosen
  large enough for a run, the value is what the code returns in that run; the code itself
  sets no bound.
\<close>

primrec flushCurrentWorkflowBuffer :: "nat \<Rightarrow> env \<Rightarrow> flushCurrent" where
  "flushCurrentWorkflowBuffer 0 env = (\<lambda>domainID workflowID tr. None)"
| "flushCurrentWorkflowBuffer (Suc depth) env =
     (\<lambda>domainID workflowID tr.
        case getCurrentWorkflowMutableState env domainID workflowID tr of
          (Ok (currentContext, currentMutableState), tr1) \<Rightarrow>
            (case FlushBuffer (flushCurrentWorkflowBuffer depth env) env
                    currentContext currentMutableState tr1 of
               None \<Rightarrow> None
             | Some (Ok _, ms, tr2) \<Rightarrow> Some (Ok (), tr2 @ [Release currentContext None])
             | Some (Err e, ms, tr2) \<Rightarrow> Some (Err e, tr2 @ [Release currentContext (Some e)])
             | Some (Panic, ms, tr2) \<Rightarrow> Some (Panic, tr2))
        | (r, tr1) \<Rightarrow> Some (failure r, tr1))"

subsection \<open>\<^verbatim>\<open>ApplyOtherEvents\<close>\<close>

definition ApplyOtherEvents ::
  "flushCurrent \<Rightarrow> env \<Rightarrow> workflowExecutionContext \<Rightarrow> mutableState \<Rightarrow> replicateEventsRequest
     \<Rightarrow> trace \<Rightarrow> (unit result \<times> mutableState \<times> trace) option" where
  "ApplyOtherEvents flushCurrent env context msBuilder request tr =
     (let firstEventID = FirstEventId request in
      if firstEventID < GetNextEventID msBuilder then Some (Ok (), msBuilder, tr)
      else if firstEventID > GetNextEventID msBuilder then
        (if \<not> ForceBufferEvents request then Some (Err ErrRetryBufferEvents, msBuilder, tr)
         else
           (case History request of
              None \<Rightarrow> Some (Panic, msBuilder, tr)
            | Some events \<Rightarrow>
              (case BufferReplicationTask env msBuilder request of
                 (Ok _, ms1) \<Rightarrow>
                   (let tr1 = tr @ [ShardGetNextTransferTaskID] in
                    case shard_GetNextTransferTaskID env tr1 of
                      Ok transactionID \<Rightarrow>
                        (let lastWriteVersion = GetLastWriteVersion ms1;
                             sourceCluster = ClusterNameForFailoverVersion env lastWriteVersion in
                         if events = [] then Some (Panic, ms1, tr1)
                         else
                           (let lastEvent = last events;
                                now = Timestamp lastEvent;
                                tr2 = tr1 @ [ContextUpdateHelper context [] [] transactionID now
                                               False sourceCluster] in
                            case context_updateHelper env tr2 ms1 of
                              (r, ms2) \<Rightarrow> Some (r, ms2, tr2)))
                    | r \<Rightarrow> Some (failure r, ms1, tr1))
               | (Panic, ms1) \<Rightarrow> Some (Panic, ms1, tr)
               | (Err e, ms1) \<Rightarrow>
                   Some (Err (ErrorString ''failed to add buffered replication task''), ms1, tr))))
      else
        (case ApplyReplicationTask flushCurrent env context msBuilder request tr of
           None \<Rightarrow> None
         | Some (Ok _, ms1, tr1) \<Rightarrow> FlushBuffer flushCurrent env context ms1 tr1
         | Some (r, ms1, tr1) \<Rightarrow> Some (r, ms1, tr1)))"

subsection \<open>Version checking and conflict resolution\<close>

text \<open>The closure \<^verbatim>\<open>getPrevRunID\<close>: the run a given run continues, read from the first
  event of its history.\<close>

definition getPrevRunID ::
  "env \<Rightarrow> string \<Rightarrow> string \<Rightarrow> string \<Rightarrow> trace \<Rightarrow> string result \<times> trace" where
  "getPrevRunID env domainID workflowID runID tr =
     (let req = \<lparr>hr_DomainID = domainID,
                 hr_Execution = \<lparr>WorkflowId = Some workflowID, RunId = Some runID\<rparr>,
                 hr_FirstEventID = FirstEventID env,
                 hr_NextEventID = FirstEventID env + 1,
                 hr_PageSize = defaultHistoryPageSize env,
                 hr_NextPageToken = []\<rparr>;
          tr1 = tr @ [HistoryMgrGetWorkflowExecutionHistory req] in
      case historyMgr_GetWorkflowExecutionHistory env tr1 req of
        Ok response \<Rightarrow>
          (case Events response of
             [] \<Rightarrow> (Err errNoHistoryFound, tr1)
           | b # _ \<Rightarrow>
             (let serializedHistoryEventBatch = SetSerializedHistoryDefaults env b in
              case HistorySerializerFactory_Get env (EncodingType serializedHistoryEventBatch) of
                Ok _ \<Rightarrow>
                  (case Deserialize env serializedHistoryEventBatch of
                     Ok history \<Rightarrow>
                       (case history of
                          [] \<Rightarrow> (Err errNoHistoryFound, tr1)
                        | e # _ \<Rightarrow> (Ok (ContinuedExecutionRunId e), tr1))
                   | r \<Rightarrow> (failure r, tr1))
              | r \<Rightarrow> (failure r, tr1)))
      | r \<Rightarrow> (failure r, tr1))"

text \<open>The walk back along the continue-as-new chain,
  \<^verbatim>\<open>for err == nil && runID != "" && runID != targetRunID\<close>. The chain comes from the store and
  nothing bounds the walk, so it is a partial function.\<close>

partial_function (option) walkPrevRunIDs ::
  "env \<Rightarrow> string \<Rightarrow> string \<Rightarrow> string \<Rightarrow> string \<Rightarrow> trace \<Rightarrow> (string result \<times> trace) option" where
  "walkPrevRunIDs env domainID workflowID targetRunID runID tr =
     (if runID \<noteq> [] \<and> runID \<noteq> targetRunID then
        (case getPrevRunID env domainID workflowID runID tr of
           (Ok runID', tr1) \<Rightarrow> walkPrevRunIDs env domainID workflowID targetRunID runID' tr1
         | (r, tr1) \<Rightarrow> Some (r, tr1))
      else Some (Ok runID, tr))"

definition conflictResolutionTerminateContinueAsNew ::
  "env \<Rightarrow> mutableState \<Rightarrow> trace \<Rightarrow> (unit result \<times> trace) option" where
  "conflictResolutionTerminateContinueAsNew env msBuilder tr =
     (if IsWorkflowExecutionRunning msBuilder then Some (Ok (), tr)
      else if CloseStatus (GetExecutionInfo msBuilder) \<noteq> WorkflowCloseStatusContinuedAsNew
        then Some (Ok (), tr)
      else
        (let domainID = DomainID (GetExecutionInfo msBuilder);
             workflowID = WorkflowID (GetExecutionInfo msBuilder) in
         case getCurrentWorkflowMutableState env domainID workflowID tr of
           (Ok (currentContext, currentMutableState), tr1) \<Rightarrow>
             (let currentRunID = RunID (GetExecutionInfo currentMutableState);
                  currentCloseStatus = CloseStatus (GetExecutionInfo currentMutableState);
                  tr2 = tr1 @ [Release currentContext None] in
              if currentCloseStatus \<noteq> WorkflowCloseStatusNone then Some (Ok (), tr2)
              else
                (let targetRunID = RunID (GetExecutionInfo msBuilder) in
                 case walkPrevRunIDs env domainID workflowID targetRunID currentRunID tr2 of
                   None \<Rightarrow> None
                 | Some (Ok runID, tr3) \<Rightarrow>
                     if runID = [] then Some (Ok (), tr3)
                     else Some (terminateWorkflow env domainID workflowID currentRunID tr3)
                 | Some (r, tr3) \<Rightarrow> Some (failure r, tr3)))
         | (r, tr1) \<Rightarrow> Some (failure r, tr1)))"

text \<open>The result \<^verbatim>\<open>(mutableState, error)\<close> of \<^verbatim>\<open>ApplyOtherEventsVersionChecking\<close>: \<open>Ok None\<close> is
  \<^verbatim>\<open>(nil, nil)\<close>, the dropped request.\<close>

definition ApplyOtherEventsVersionChecking ::
  "env \<Rightarrow> workflowExecutionContext \<Rightarrow> mutableState \<Rightarrow> replicateEventsRequest \<Rightarrow> trace
     \<Rightarrow> (mutableState option result \<times> trace) option" where
  "ApplyOtherEventsVersionChecking env context msBuilder request tr =
     (let incomingVersion = RequestVersion request;
          replicationInfo = ReplicationInfo request;
          rState = GetReplicationState msBuilder in
      if LastWriteVersion rState > incomingVersion then Some (Ok None, tr)
      else if LastWriteVersion rState = incomingVersion then Some (Ok (Some msBuilder), tr)
      else
        (let previousActiveCluster =
               ClusterNameForFailoverVersion env (LastWriteVersion rState) in
         case replicationInfo previousActiveCluster of
           None \<Rightarrow>
             if IsVersionFromSameCluster env incomingVersion (LastWriteVersion rState)
             then Some (Ok (Some msBuilder), tr)
             else Some (Err ErrMissingReplicationInfo, tr)
         | Some ri \<Rightarrow>
             if ri_LastEventId ri > LastWriteEventID rState
             then Some (Err ErrCorruptedReplicationInfo, tr)
             else if ri_LastEventId ri < LastWriteEventID rState then
               (case conflictResolutionTerminateContinueAsNew env msBuilder tr of
                  None \<Rightarrow> None
                | Some (Ok _, tr1) \<Rightarrow>
                    (let tr2 = tr1 @ [UuidNew];
                         runID = uuid_New env tr2;
                         tr3 = tr2 @ [ConflictResolverReset context runID (ri_LastEventId ri)
                                        (StartTimestamp (GetExecutionInfo msBuilder))] in
                     case resolver_reset env tr3 context runID (ri_LastEventId ri)
                            (StartTimestamp (GetExecutionInfo msBuilder)) of
                       Ok msBuilder' \<Rightarrow> Some (Ok (Some msBuilder'), tr3)
                     | r \<Rightarrow> Some (failure r, tr3))
                | Some (r, tr1) \<Rightarrow> Some (failure r, tr1))
             else Some (Ok (Some msBuilder), tr)))"

subsection \<open>\<^verbatim>\<open>ApplyEvents\<close>\<close>

definition ApplyOtherEventsMissingMutableState ::
  "flushCurrent \<Rightarrow> env \<Rightarrow> string \<Rightarrow> string \<Rightarrow> int \<Rightarrow> trace \<Rightarrow> (unit result \<times> trace) option" where
  "ApplyOtherEventsMissingMutableState flushCurrent env domainID workflowID incomingVersion tr =
     (case getCurrentWorkflowMutableState env domainID workflowID tr of
        (Ok (currentContext, currentMutableState), tr1) \<Rightarrow>
          (let currentLastWriteVersion = GetLastWriteVersion currentMutableState;
               tr2 = tr1 @ [Release currentContext None] in
           if currentLastWriteVersion > incomingVersion then Some (Ok (), tr2)
           else
             (case flushCurrent domainID workflowID tr2 of
                None \<Rightarrow> None
              | Some (Ok _, tr3) \<Rightarrow> Some (Err ErrRetryEntityNotExists, tr3)
              | Some (r, tr3) \<Rightarrow> Some (r, tr3)))
      | (r, tr1) \<Rightarrow> Some (failure r, tr1))"

definition ApplyStartEvent ::
  "flushCurrent \<Rightarrow> env \<Rightarrow> workflowExecutionContext \<Rightarrow> replicateEventsRequest \<Rightarrow> trace
     \<Rightarrow> (unit result \<times> mutableState \<times> trace) option" where
  "ApplyStartEvent flushCurrent env context request tr =
     (let msBuilder = getNewMutableState env (RequestVersion request) in
      ApplyReplicationTask flushCurrent env context msBuilder request tr)"

text \<open>The first deferred function of \<^verbatim>\<open>ApplyEvents\<close>: it rewrites the returned error.\<close>

fun translateRetError :: "unit result \<Rightarrow> unit result" where
  "translateRetError (Err EntityNotExistsError) = Err ErrRetryEntityNotExists"
| "translateRetError (Err WorkflowExecutionAlreadyStartedError) = Err ErrRetryExecutionAlreadyStarted"
| "translateRetError (Err (PersistenceWorkflowExecutionAlreadyStartedError r s v)) =
     Err ErrRetryExecutionAlreadyStarted"
| "translateRetError r = r"

text \<open>The second deferred function, \<^verbatim>\<open>release(retError)\<close>, runs first when the function
  leaves, also when it leaves by a panic (the named result is still nil then).\<close>

definition releaseDeferred ::
  "workflowExecutionContext \<Rightarrow> unit result \<times> trace \<Rightarrow> unit result \<times> trace" where
  "releaseDeferred context rt =
     (case rt of
        (Err e, tr) \<Rightarrow> (Err e, tr @ [Release context (Some e)])
      | (r, tr) \<Rightarrow> (r, tr @ [Release context None]))"

text \<open>The body of \<^verbatim>\<open>ApplyEvents\<close> once the context is held (from the \<^verbatim>\<open>switch\<close> on).\<close>

definition ApplyEvents_dispatch ::
  "flushCurrent \<Rightarrow> env \<Rightarrow> string \<Rightarrow> workflowExecutionContext \<Rightarrow> replicateEventsRequest
     \<Rightarrow> historyEvent \<Rightarrow> trace \<Rightarrow> (unit result \<times> trace) option" where
  "ApplyEvents_dispatch flushCurrent env domainID context request firstEvent tr =
     (let tr1 = tr @ [ContextLoadWorkflowExecution context];
          loaded = context_loadWorkflowExecution env tr1 context in
      case EventType firstEvent of
        EventTypeWorkflowExecutionStarted \<Rightarrow>
          (case loaded of
             Ok _ \<Rightarrow> Some (Ok (), tr1)
           | Err EntityNotExistsError \<Rightarrow>
               (case ApplyStartEvent flushCurrent env context request tr1 of
                  None \<Rightarrow> None
                | Some (r, ms, tr2) \<Rightarrow> Some (r, tr2))
           | r \<Rightarrow> Some (failure r, tr1))
      | _ \<Rightarrow>
          (case loaded of
             Ok msBuilder \<Rightarrow>
               (case FlushBuffer flushCurrent env context msBuilder tr1 of
                  None \<Rightarrow> None
                | Some (Ok _, ms1, tr2) \<Rightarrow>
                    (case ApplyOtherEventsVersionChecking env context ms1 request tr2 of
                       None \<Rightarrow> None
                     | Some (Ok (Some ms2), tr3) \<Rightarrow>
                         (case ApplyOtherEvents flushCurrent env context ms2 request tr3 of
                            None \<Rightarrow> None
                          | Some (r, ms3, tr4) \<Rightarrow> Some (r, tr4))
                     | Some (Ok None, tr3) \<Rightarrow> Some (Ok (), tr3)
                     | Some (r, tr3) \<Rightarrow> Some (failure r, tr3))
                | Some (r, ms1, tr2) \<Rightarrow> Some (r, tr2))
           | Err EntityNotExistsError \<Rightarrow>
               ApplyOtherEventsMissingMutableState flushCurrent env domainID
                 (case WorkflowId (ctx_execution context) of None \<Rightarrow> [] | Some w \<Rightarrow> w)
                 (EventVersion firstEvent)
                 (tr1 @ [Release context (Some EntityNotExistsError)])
           | r \<Rightarrow> Some (failure r, tr1)))"

text \<open>
  \<^verbatim>\<open>ApplyEvents\<close>. The function starts by building the logger fields from
  \<^verbatim>\<open>request.WorkflowExecution\<close> and by recording \<^verbatim>\<open>len(request.History.Events)\<close> as a metric;
  both dereference their pointer, and both come before the guard
  \<^verbatim>\<open>request == nil || request.History == nil || len(request.History.Events) == 0\<close>.
  \<open>depth\<close> is the bound of \<open>flushCurrentWorkflowBuffer\<close>.
\<close>

definition ApplyEvents ::
  "nat \<Rightarrow> env \<Rightarrow> replicateEventsRequest option \<Rightarrow> trace \<Rightarrow> (unit result \<times> trace) option" where
  "ApplyEvents depth env request tr =
     (case request of
        None \<Rightarrow> Some (Panic, tr)
      | Some req \<Rightarrow>
        (case History req of
           None \<Rightarrow> Some (Panic, tr)
         | Some events \<Rightarrow>
           if request = None \<or> History req = None \<or> length events = 0 then Some (Ok (), tr)
           else
             (case validateDomainUUID env (DomainUUID req) of
                Ok domainID \<Rightarrow>
                  (case WorkflowExecution req of
                     None \<Rightarrow> Some (Panic, tr)
                   | Some execution \<Rightarrow>
                     (let tr1 = tr @ [HistoryCacheGetOrCreateWorkflowExecution domainID execution] in
                      case historyCache_getOrCreateWorkflowExecution env tr1 domainID execution of
                        Ok _ \<Rightarrow>
                          (let context = \<lparr>ctx_domainID = domainID, ctx_execution = execution\<rparr> in
                           case ApplyEvents_dispatch (flushCurrentWorkflowBuffer depth env) env
                                  domainID context req (hd events) tr1 of
                             None \<Rightarrow> None
                           | Some rt \<Rightarrow>
                               (case releaseDeferred context rt of
                                  (r, tr2) \<Rightarrow> Some (translateRetError r, tr2)))
                      | r \<Rightarrow> Some (translateRetError (failure r), tr1)))
              | r \<Rightarrow> Some (translateRetError (failure r), tr))))"

section \<open>Active timer queue processor: data\<close>

text \<open>
  The processor's collaborators (ack manager, execution cache, mutable-state builder,
  timer builder, shard, matching client) are outside the sources at hand. As for the
  replicator, calls that change something or that a property speaks about are recorded in
  a trace and answered by the environment from the trace up to and including the call;
  pure queries of the mutable state are answered from the trace so far and not recorded.
  Times are nanoseconds; \<^verbatim>\<open>Unix()\<close> gives whole seconds.
\<close>

datatype taskType =
    TaskTypeUserTimer | TaskTypeActivityTimeout | TaskTypeDecisionTimeout
  | TaskTypeWorkflowTimeout | TaskTypeRetryTimer | TaskTypeDeleteHistoryEvent
  | TaskTypeOther int

datatype timeoutType =
    TimeoutTypeStartToClose | TimeoutTypeScheduleToStart
  | TimeoutTypeScheduleToClose | TimeoutTypeHeartbeat

record timerTaskInfo =
  tt_DomainID :: string
  tt_WorkflowID :: string
  tt_RunID :: string
  tt_TaskID :: int
  tt_VisibilityTimestamp :: int
  tt_TaskType :: taskType
  tt_TimeoutType :: int
  tt_EventID :: int
  tt_ScheduleAttempt :: int
  tt_Version :: int

record timerDetails =
  td_VisibilityTimestamp :: int
  td_TimerID :: string
  td_ActivityID :: int
  td_TimeoutType :: timeoutType
  td_TimeoutSec :: int
  td_Attempt :: int
  td_TaskCreated :: bool

record timerInfo =
  ti_TimerID :: string
  ti_StartedID :: int
  ti_TaskID :: int

record activityInfo =
  ai_Version :: int
  ai_ScheduleID :: int
  ai_StartedID :: int
  ai_Attempt :: int
  ai_Details :: "byte list"
  ai_TaskList :: string
  ai_ScheduleToStartTimeout :: int
  ai_TimerTaskStatus :: "32 word"
  ai_LastTimeoutVisibility :: int

definition Unix :: "int \<Rightarrow> int" where
  "Unix t = t div 1000000000"

datatype tcall =
    CacheGetOrCreateWorkflowExecution string string string
  | CacheRelease "error option"
  | LoadMutableStateForTimerTask
  | IsTimerExpiredAt timerDetails int
  | AddTimerFiredEvent int string
  | CreateNewTask timerDetails
  | UpdateUserTimer string timerInfo
  | UpdateActivity activityInfo
  | CreateRetryTimer activityInfo string
  | AddActivityTaskTimedOutEvent int int timeoutType "byte list"
  | AddDecisionTaskTimedOutEvent int int
  | AddDecisionTaskScheduleToStartTimeoutEvent int
  | AddTimeoutWorkflowEvent
  | AddDecisionTaskFailedEvent int int
  | ContextScheduleNewDecision "task list" "task list"
  | GetDeleteWorkflowTasks string
  | TimerGetNextTransferTaskID
  | ContextUpdateWorkflowExecutionWithDeleteTask "task list" "task list" "task option" int
  | ContextUpdateWorkflowExecution "task list" "task list" int
  | ContextClear
  | ContextLoadWorkflowExecutionAgain
  | TimerQueueProcessorBaseStop
  | NotifyNewTimersActive "task list"
  | MatchingAddActivityTask string string string string string int int
  | ProcessDeleteHistoryEvent timerTaskInfo

type_synonym ttrace = "tcall list"

record tenv =
  conditionalRetryCount :: int
  tq_EmptyEventID :: int
  TimerTaskStatusCreated :: int
  TimerTaskStatusCreatedHeartbeat :: "32 word"
  getActivityTimerStatus :: "int \<Rightarrow> 32 word"
  timeoutTypeCode :: "timeoutType \<Rightarrow> int"
  getTimeoutErrorReason :: "timeoutType \<Rightarrow> string"
  IsTimerExpired :: "timerDetails \<Rightarrow> int \<Rightarrow> bool"
  isShardOwnershiptLostError :: "error \<Rightarrow> bool"
  timerTaskFilter :: "ttrace \<Rightarrow> timerTaskInfo \<Rightarrow> bool result"
  timeNow :: "ttrace \<Rightarrow> int"
  cache_getOrCreateWorkflowExecution :: "ttrace \<Rightarrow> unit result"
  loadMutableStateForTimerTask :: "ttrace \<Rightarrow> bool result"
  ms_IsWorkflowExecutionRunning :: "ttrace \<Rightarrow> bool"
  ms_HasPendingDecisionTask :: "ttrace \<Rightarrow> bool"
  tBuilder_GetUserTimers :: "ttrace \<Rightarrow> timerDetails list"
  tBuilder_GetUserTimer :: "ttrace \<Rightarrow> string \<Rightarrow> timerInfo option"
  tBuilder_GetActivityTimers :: "ttrace \<Rightarrow> timerDetails list"
  tBuilder_createNewTask :: "ttrace \<Rightarrow> task"
  ms_AddTimerFiredEvent :: "ttrace \<Rightarrow> bool"
  ms_GetActivityInfo :: "ttrace \<Rightarrow> int \<Rightarrow> activityInfo option"
  ms_CreateRetryTimer :: "ttrace \<Rightarrow> task option"
  ms_AddActivityTaskTimedOutEvent :: "ttrace \<Rightarrow> bool"
  ms_GetPendingDecision :: "ttrace \<Rightarrow> int \<Rightarrow> decisionInfo option"
  ms_IsStickyTaskListEnabled :: "ttrace \<Rightarrow> bool"
  ms_AddDecisionTaskScheduleToStartTimeoutEvent :: "ttrace \<Rightarrow> bool"
  ms_GetReplicationState :: "ttrace \<Rightarrow> replicationState option"
  ms_AddTimeoutWorkflowEvent :: "ttrace \<Rightarrow> bool"
  ms_GetInFlightDecisionTask :: "ttrace \<Rightarrow> decisionInfo option"
  ms_GetExecutionInfoDomainID :: "ttrace \<Rightarrow> string"
  ms_GetActivityScheduledEventDomain :: "ttrace \<Rightarrow> int \<Rightarrow> string option"
  verifyTaskVersion :: "ttrace \<Rightarrow> string \<Rightarrow> int \<Rightarrow> int \<Rightarrow> bool result"
  context_scheduleNewDecision :: "ttrace \<Rightarrow> (task list \<times> task list) result"
  getDeleteWorkflowTasks :: "ttrace \<Rightarrow> (task \<times> task) result"
  tq_GetNextTransferTaskID :: "ttrace \<Rightarrow> int result"
  context_updateWorkflowExecutionWithDeleteTask :: "ttrace \<Rightarrow> unit result"
  context_updateWorkflowExecution :: "ttrace \<Rightarrow> unit result"
  context_loadWorkflowExecutionAgain :: "ttrace \<Rightarrow> unit result"
  tq_domainCache_GetDomain :: "ttrace \<Rightarrow> string \<Rightarrow> string result"
  matchingClient_AddActivityTask :: "ttrace \<Rightarrow> unit result"
  processDeleteHistoryEvent :: "ttrace \<Rightarrow> unit result"

section \<open>Active timer queue processor: operations\<close>

text \<open>Control of a loop body: \<^verbatim>\<open>continue\<close> with the next attempt, or \<^verbatim>\<open>return\<close>.\<close>

datatype 'a step = Continue | Return 'a

text \<open>
  \<^verbatim>\<open>for attempt := 0; attempt < conditionalRetryCount; attempt++ { ... }\<close> followed by
  \<^verbatim>\<open>return ErrMaxAttemptsExceeded\<close>: the loop every handler is built on. The body does not
  read \<open>attempt\<close>; it works on the state \<open>st\<close> the handler threads through (the trace,
  and the deferred calls where the handler has any).
\<close>

function Update_History_Loop ::
  "int \<Rightarrow> ('s \<Rightarrow> unit result step \<times> 's) \<Rightarrow> int \<Rightarrow> 's \<Rightarrow> unit result \<times> 's" where
  "Update_History_Loop N body attempt st =
     (if attempt < N then
        (case body st of
           (Continue, st') \<Rightarrow> Update_History_Loop N body (attempt + 1) st'
         | (Return r, st') \<Rightarrow> (r, st'))
      else (Err ErrMaxAttemptsExceeded, st))"
  by pat_completeness auto
termination
  by (relation "measure (\<lambda>(N, body, attempt, st). nat (N - attempt))") auto

declare Update_History_Loop.simps [simp del]

text \<open>The error a function leaves with, as \<^verbatim>\<open>release(retError)\<close> receives it.\<close>

fun retError :: "unit result \<Rightarrow> error option" where
  "retError (Err e) = Some e"
| "retError _ = None"

subsection \<open>\<^verbatim>\<open>updateWorkflowExecution\<close>\<close>

text \<open>The recovery from \<^verbatim>\<open>ErrBufferedEventsLimitExceeded\<close>: the cached state is dropped and
  reloaded, a decision in flight is failed and a new one scheduled and committed; the
  original error \<open>err\<close> is returned unless one of these steps fails.\<close>

definition failOutstandingDecision :: "tenv \<Rightarrow> error \<Rightarrow> ttrace \<Rightarrow> unit result \<times> ttrace" where
  "failOutstandingDecision env err tr =
     (let tr1 = tr @ [ContextClear, ContextLoadWorkflowExecutionAgain] in
      case context_loadWorkflowExecutionAgain env tr1 of
        Ok _ \<Rightarrow>
          (case ms_GetInFlightDecisionTask env tr1 of
             None \<Rightarrow> (Err err, tr1)
           | Some di \<Rightarrow>
             (let tr2 = tr1 @ [AddDecisionTaskFailedEvent (di_ScheduleID di) (di_StartedID di),
                               ContextScheduleNewDecision [] []] in
              case context_scheduleNewDecision env tr2 of
                Ok (transT, timerT) \<Rightarrow>
                  (let tr3 = tr2 @ [TimerGetNextTransferTaskID] in
                   case tq_GetNextTransferTaskID env tr3 of
                     Ok transactionID \<Rightarrow>
                       (let tr4 = tr3 @ [ContextUpdateWorkflowExecution transT timerT
                                           transactionID] in
                        case context_updateWorkflowExecution env tr4 of
                          Ok _ \<Rightarrow> (Err err, tr4)
                        | r \<Rightarrow> (r, tr4))
                   | r \<Rightarrow> (failure r, tr3))
              | r \<Rightarrow> (failure r, tr2)))
      | r \<Rightarrow> (r, tr1))"

text \<open>The commit proper, after the tasks are collected.\<close>

definition updateWorkflowExecution_commit ::
  "tenv \<Rightarrow> task list \<Rightarrow> task list \<Rightarrow> task option \<Rightarrow> ttrace \<Rightarrow> unit result \<times> ttrace" where
  "updateWorkflowExecution_commit env transferTasks timerTasks clearTimerTask tr =
     (let tr1 = tr @ [TimerGetNextTransferTaskID] in
      case tq_GetNextTransferTaskID env tr1 of
        Ok transactionID \<Rightarrow>
          (let tr2 = tr1 @ [ContextUpdateWorkflowExecutionWithDeleteTask transferTasks timerTasks
                              clearTimerTask transactionID] in
           case context_updateWorkflowExecutionWithDeleteTask env tr2 of
             Err err \<Rightarrow>
               if isShardOwnershiptLostError env err
               then (Err err, tr2 @ [TimerQueueProcessorBaseStop])
               else if err = ErrBufferedEventsLimitExceeded
               then failOutstandingDecision env err tr2
               else (Err err, tr2 @ [NotifyNewTimersActive timerTasks])
           | Ok _ \<Rightarrow> (Ok (), tr2 @ [NotifyNewTimersActive timerTasks])
           | Panic \<Rightarrow> (Panic, tr2))
      | r \<Rightarrow> (failure r, tr1))"

definition updateWorkflowExecution ::
  "tenv \<Rightarrow> bool \<Rightarrow> bool \<Rightarrow> task list \<Rightarrow> task option \<Rightarrow> ttrace \<Rightarrow> unit result \<times> ttrace" where
  "updateWorkflowExecution env scheduleNewDecision createDeletionTask timerTasks0 clearTimerTask tr =
     (let domainID = ms_GetExecutionInfoDomainID env tr;
          scheduled =
            (if scheduleNewDecision then
               (let tr1 = tr @ [ContextScheduleNewDecision [] timerTasks0] in
                case context_scheduleNewDecision env tr1 of
                  Ok (transferTasks, timerTasks) \<Rightarrow> (Ok (transferTasks, timerTasks), tr1)
                | r \<Rightarrow> (failure r, tr1))
             else (Ok ([], timerTasks0), tr))
      in
      case scheduled of
        (Ok (transferTasks, timerTasks), tr1) \<Rightarrow>
          if createDeletionTask then
            (let tr2 = tr1 @ [GetDeleteWorkflowTasks domainID] in
             case getDeleteWorkflowTasks env tr2 of
               Ok (tranT, timerT) \<Rightarrow>
                 updateWorkflowExecution_commit env (transferTasks @ [tranT])
                   (timerTasks @ [timerT]) clearTimerTask tr2
             | Err e \<Rightarrow> (Ok (), tr2)
             | Panic \<Rightarrow> (Panic, tr2))
          else updateWorkflowExecution_commit env transferTasks timerTasks clearTimerTask tr1
      | (r, tr1) \<Rightarrow> (failure r, tr1))"

subsection \<open>\<^verbatim>\<open>processExpiredUserTimer\<close>\<close>

text \<open>
  The loop \<^verbatim>\<open>ExpireUserTimers\<close> over the pending user timers. Its state is the trace, the
  timer tasks, \<open>scheduleNewDecision\<close> and the calls deferred so far (each
  \<^verbatim>\<open>defer t.notifyNewTimers(timerTasks)\<close> adds one); the result is the error the handler
  returns at once, if any.
\<close>

fun ExpireUserTimers ::
  "tenv \<Rightarrow> timerTaskInfo \<Rightarrow> timerDetails list
     \<Rightarrow> ttrace \<times> task list \<times> bool \<times> task list list
     \<Rightarrow> error option \<times> ttrace \<times> task list \<times> bool \<times> task list list" where
  "ExpireUserTimers env task [] st = (None, st)"
| "ExpireUserTimers env task (td # tds) (tr, timerTasks, scheduleNewDecision, deferred) =
     (case tBuilder_GetUserTimer env tr (td_TimerID td) of
        None \<Rightarrow>
          (Some (ErrorString (''Failed to find in memory user timer: '' @ td_TimerID td)),
           tr, timerTasks, scheduleNewDecision, deferred)
      | Some ti \<Rightarrow>
        (let tr1 = tr @ [IsTimerExpiredAt td (tt_VisibilityTimestamp task)] in
         if IsTimerExpired env td (tt_VisibilityTimestamp task) then
           (let tr2 = tr1 @ [AddTimerFiredEvent (ti_StartedID ti) (ti_TimerID ti)] in
            if \<not> ms_AddTimerFiredEvent env tr2
            then (Some errFailedToAddTimerFiredEvent, tr2, timerTasks, scheduleNewDecision,
                  deferred)
            else ExpireUserTimers env task tds
                   (tr2, timerTasks, \<not> ms_HasPendingDecisionTask env tr2, deferred))
         else if \<not> td_TaskCreated td then
           (let tr2 = tr1 @ [CreateNewTask td];
                nextTask = tBuilder_createNewTask env tr2;
                ti' = ti\<lparr>ti_TaskID := TimerTaskStatusCreated env\<rparr>;
                tr3 = tr2 @ [UpdateUserTimer (ti_TimerID ti') ti'] in
            (None, tr3, [nextTask], scheduleNewDecision, [nextTask] # deferred))
         else (None, tr1, timerTasks, scheduleNewDecision, deferred)))"

text \<open>One pass of the \<^verbatim>\<open>Update_History_Loop\<close> of \<^verbatim>\<open>processExpiredUserTimer\<close>.\<close>

definition processExpiredUserTimer_attempt ::
  "tenv \<Rightarrow> timerTaskInfo \<Rightarrow> ttrace \<times> task list list
     \<Rightarrow> unit result step \<times> ttrace \<times> task list list" where
  "processExpiredUserTimer_attempt env task st =
     (case st of (tr, deferred) \<Rightarrow>
      (let tr1 = tr @ [LoadMutableStateForTimerTask] in
       case loadMutableStateForTimerTask env tr1 of
         Ok present \<Rightarrow>
           if \<not> present \<or> \<not> ms_IsWorkflowExecutionRunning env tr1
           then (Return (Ok ()), tr1, deferred)
           else
             (case ExpireUserTimers env task (tBuilder_GetUserTimers env tr1)
                     (tr1, [], False, deferred) of
                (Some e, tr2, timerTasks, scheduleNewDecision, deferred') \<Rightarrow>
                  (Return (Err e), tr2, deferred')
              | (None, tr2, timerTasks, scheduleNewDecision, deferred') \<Rightarrow>
                  (case updateWorkflowExecution env scheduleNewDecision False timerTasks None tr2 of
                     (r, tr3) \<Rightarrow>
                       if r = Err ErrConflict then (Continue, tr3, deferred')
                       else (Return r, tr3, deferred')))
       | r \<Rightarrow> (Return (failure r), tr1, deferred)))"

text \<open>The handler: the deferred notifications run when it leaves, last deferred first, and
  \<^verbatim>\<open>release(retError)\<close> after them.\<close>

definition processExpiredUserTimer ::
  "tenv \<Rightarrow> timerTaskInfo \<Rightarrow> ttrace \<Rightarrow> unit result \<times> ttrace" where
  "processExpiredUserTimer env task tr =
     (let tr1 = tr @ [CacheGetOrCreateWorkflowExecution (tt_DomainID task) (tt_WorkflowID task)
                        (tt_RunID task)] in
      case cache_getOrCreateWorkflowExecution env tr1 of
        Ok _ \<Rightarrow>
          (case Update_History_Loop (conditionalRetryCount env)
                  (processExpiredUserTimer_attempt env task) 0 (tr1, []) of
             (r, tr2, deferred) \<Rightarrow>
               (r, tr2 @ map NotifyNewTimersActive deferred @ [CacheRelease (retError r)]))
      | r \<Rightarrow> (failure r, tr1))"

subsection \<open>\<^verbatim>\<open>processActivityTimeout\<close>\<close>

text \<open>The \<^verbatim>\<open>switch timeoutType\<close> that emits the \<^verbatim>\<open>ActivityTaskTimedOut\<close> event: whether the
  event is to be added for this timeout type and activity, and with which details.\<close>

definition timedOutEventFor :: "tenv \<Rightarrow> timeoutType \<Rightarrow> activityInfo \<Rightarrow> byte list option" where
  "timedOutEventFor env timeoutType ai =
     (case timeoutType of
        TimeoutTypeScheduleToClose \<Rightarrow> Some []
      | TimeoutTypeStartToClose \<Rightarrow>
          if ai_StartedID ai \<noteq> tq_EmptyEventID env then Some [] else None
      | TimeoutTypeHeartbeat \<Rightarrow> Some (ai_Details ai)
      | TimeoutTypeScheduleToStart \<Rightarrow>
          if ai_StartedID ai = tq_EmptyEventID env then Some [] else None)"

text \<open>
  The loop \<^verbatim>\<open>ExpireActivityTimers\<close> over the pending activity timers. Its state is the trace,
  the timer tasks, \<open>updateHistory\<close> and \<open>createNewTimer\<close>.
\<close>

fun ExpireActivityTimers ::
  "tenv \<Rightarrow> int \<Rightarrow> timerDetails list \<Rightarrow> ttrace \<times> task list \<times> bool \<times> bool
     \<Rightarrow> error option \<times> ttrace \<times> task list \<times> bool \<times> bool" where
  "ExpireActivityTimers env referenceTime [] st = (None, st)"
| "ExpireActivityTimers env referenceTime (td # tds) (tr, timerTasks, updateHistory, createNewTimer) =
     (case ms_GetActivityInfo env tr (td_ActivityID td) of
        None \<Rightarrow>
          ExpireActivityTimers env referenceTime tds (tr, timerTasks, updateHistory, createNewTimer)
      | Some ai \<Rightarrow>
        (let tr1 = tr @ [IsTimerExpiredAt td referenceTime] in
         if IsTimerExpired env td referenceTime then
           (let timeoutType = td_TimeoutType td in
            if td_Attempt td < ai_Attempt ai \<and> timeoutType \<noteq> TimeoutTypeScheduleToClose
            then ExpireActivityTimers env referenceTime tds
                   (tr1, timerTasks, updateHistory, createNewTimer)
            else
              (let tr2 = (if timeoutType \<noteq> TimeoutTypeScheduleToStart
                          then tr1 @ [CreateRetryTimer ai (getTimeoutErrorReason env timeoutType)]
                          else tr1);
                   retryTask = (if timeoutType \<noteq> TimeoutTypeScheduleToStart
                                then ms_CreateRetryTimer env tr2 else None) in
               case retryTask of
                 Some retry \<Rightarrow>
                   ExpireActivityTimers env referenceTime tds
                     (tr2, timerTasks @ [retry], updateHistory, True)
               | None \<Rightarrow>
                   (case timedOutEventFor env timeoutType ai of
                      None \<Rightarrow>
                        ExpireActivityTimers env referenceTime tds
                          (tr2, timerTasks, updateHistory, createNewTimer)
                    | Some details \<Rightarrow>
                        (let tr3 = tr2 @ [AddActivityTaskTimedOutEvent (ai_ScheduleID ai)
                                            (ai_StartedID ai) timeoutType details] in
                         if \<not> ms_AddActivityTaskTimedOutEvent env tr3
                         then (Some errFailedToAddTimeoutEvent, tr3, timerTasks, updateHistory,
                               createNewTimer)
                         else ExpireActivityTimers env referenceTime tds
                                (tr3, timerTasks, True, createNewTimer)))))
         else if \<not> td_TaskCreated td then
           (let tr2 = tr1 @ [CreateNewTask td];
                nextTask = tBuilder_createNewTask env tr2;
                ai' = ai\<lparr>ai_TimerTaskStatus :=
                            ai_TimerTaskStatus ai OR
                              getActivityTimerStatus env (task_TimeoutType nextTask),
                         ai_LastTimeoutVisibility := Unix (td_VisibilityTimestamp td)\<rparr>;
                tr3 = tr2 @ [UpdateActivity ai'] in
            (None, tr3, timerTasks @ [nextTask], updateHistory, True))
         else (None, tr1, timerTasks, updateHistory, createNewTimer)))"

text \<open>The start of a pass of \<^verbatim>\<open>processActivityTimeout\<close>: for a heartbeat task whose activity
  is still there and whose last timeout visibility is not after the task's, the
  heartbeat-created flag of the activity is cleared.\<close>

definition clearHeartbeatCreated :: "tenv \<Rightarrow> timerTaskInfo \<Rightarrow> ttrace \<Rightarrow> ttrace" where
  "clearHeartbeatCreated env timerTask tr =
     (let isHeartBeatTask =
            (tt_TimeoutType timerTask = timeoutTypeCode env TimeoutTypeHeartbeat) in
      case ms_GetActivityInfo env tr (tt_EventID timerTask) of
        None \<Rightarrow> tr
      | Some ai \<Rightarrow>
          if isHeartBeatTask \<and>
             ai_LastTimeoutVisibility ai \<le> Unix (tt_VisibilityTimestamp timerTask)
          then tr @ [UpdateActivity
                 (ai\<lparr>ai_TimerTaskStatus :=
                       ai_TimerTaskStatus ai AND NOT (TimerTaskStatusCreatedHeartbeat env)\<rparr>)]
          else tr)"

text \<open>The end of a pass, from \<^verbatim>\<open>if updateHistory || createNewTimer\<close> on. A commit error other
  than \<^verbatim>\<open>ErrConflict\<close> is not returned: the pass notifies and returns nil.\<close>

definition processActivityTimeout_update ::
  "tenv \<Rightarrow> task list \<Rightarrow> bool \<Rightarrow> bool \<Rightarrow> ttrace \<Rightarrow> unit result step \<times> ttrace" where
  "processActivityTimeout_update env timerTasks updateHistory createNewTimer tr =
     (if updateHistory \<or> createNewTimer then
        (let scheduleNewDecision = (updateHistory \<and> \<not> ms_HasPendingDecisionTask env tr) in
         case updateWorkflowExecution env scheduleNewDecision False timerTasks None tr of
           (r, tr1) \<Rightarrow>
             if r = Err ErrConflict then (Continue, tr1)
             else if r = Panic then (Return Panic, tr1)
             else (Return (Ok ()), tr1 @ [NotifyNewTimersActive timerTasks]))
      else (Return (Ok ()), tr))"

text \<open>One pass of the \<^verbatim>\<open>Update_History_Loop\<close> of \<^verbatim>\<open>processActivityTimeout\<close>.\<close>

definition processActivityTimeout_attempt ::
  "tenv \<Rightarrow> timerTaskInfo \<Rightarrow> int \<Rightarrow> ttrace \<Rightarrow> unit result step \<times> ttrace" where
  "processActivityTimeout_attempt env timerTask referenceTime tr =
     (let tr1 = tr @ [LoadMutableStateForTimerTask] in
      case loadMutableStateForTimerTask env tr1 of
        Ok present \<Rightarrow>
          if \<not> present \<or> \<not> ms_IsWorkflowExecutionRunning env tr1
          then (Return (Ok ()), tr1)
          else
            (let tr2 = clearHeartbeatCreated env timerTask tr1 in
             case ExpireActivityTimers env referenceTime (tBuilder_GetActivityTimers env tr2)
                    (tr2, [], False, False) of
               (Some e, tr3, timerTasks, updateHistory, createNewTimer) \<Rightarrow> (Return (Err e), tr3)
             | (None, tr3, timerTasks, updateHistory, createNewTimer) \<Rightarrow>
                 processActivityTimeout_update env timerTasks updateHistory createNewTimer tr3)
      | r \<Rightarrow> (Return (failure r), tr1))"

definition processActivityTimeout ::
  "tenv \<Rightarrow> timerTaskInfo \<Rightarrow> ttrace \<Rightarrow> unit result \<times> ttrace" where
  "processActivityTimeout env timerTask tr =
     (let tr1 = tr @ [CacheGetOrCreateWorkflowExecution (tt_DomainID timerTask)
                        (tt_WorkflowID timerTask) (tt_RunID timerTask)] in
      case cache_getOrCreateWorkflowExecution env tr1 of
        Ok _ \<Rightarrow>
          (let referenceTime = timeNow env tr1 in
           case Update_History_Loop (conditionalRetryCount env)
                  (processActivityTimeout_attempt env timerTask referenceTime) 0 tr1 of
             (r, tr2) \<Rightarrow> (r, tr2 @ [CacheRelease (retError r)]))
      | r \<Rightarrow> (failure r, tr1))"

subsection \<open>\<^verbatim>\<open>processDecisionTimeout\<close> and \<^verbatim>\<open>processWorkflowTimeout\<close>\<close>

definition processDecisionTimeout_attempt ::
  "tenv \<Rightarrow> timerTaskInfo \<Rightarrow> ttrace \<Rightarrow> unit result step \<times> ttrace" where
  "processDecisionTimeout_attempt env task tr =
     (let tr1 = tr @ [LoadMutableStateForTimerTask] in
      case loadMutableStateForTimerTask env tr1 of
        Ok present \<Rightarrow>
          if \<not> present \<or> \<not> ms_IsWorkflowExecutionRunning env tr1
          then (Return (Ok ()), tr1)
          else
            (let scheduleID = tt_EventID task in
             case ms_GetPendingDecision env tr1 scheduleID of
               None \<Rightarrow> (Return (Ok ()), tr1)
             | Some di \<Rightarrow>
               (case verifyTaskVersion env tr1 (tt_DomainID task) (di_Version di)
                       (tt_Version task) of
                  Ok ok \<Rightarrow>
                    if \<not> ok then (Return (Ok ()), tr1)
                    else
                      (let timedOut =
                             (if tt_TimeoutType task = timeoutTypeCode env TimeoutTypeStartToClose
                              then (if di_Attempt di = tt_ScheduleAttempt task
                                    then (Ok True,
                                          tr1 @ [AddDecisionTaskTimedOutEvent scheduleID
                                                   (di_StartedID di)])
                                    else (Ok False, tr1))
                              else if tt_TimeoutType task
                                        = timeoutTypeCode env TimeoutTypeScheduleToStart
                              then (if di_Attempt di = tt_ScheduleAttempt task \<and>
                                       di_StartedID di = tq_EmptyEventID env \<and>
                                       ms_IsStickyTaskListEnabled env tr1
                                    then
                                      (let tr2 = tr1 @ [AddDecisionTaskScheduleToStartTimeoutEvent
                                                          scheduleID] in
                                       if \<not> ms_AddDecisionTaskScheduleToStartTimeoutEvent env tr2
                                       then (Err (InternalServiceError
                                               ''Unable to add DecisionTaskScheduleToStartTimeout event to history.''),
                                             tr2)
                                       else (Ok True, tr2))
                                    else (Ok False, tr1))
                              else (Ok False, tr1)) in
                       case timedOut of
                         (Ok scheduleNewDecision, tr2) \<Rightarrow>
                           if scheduleNewDecision then
                             (case updateWorkflowExecution env scheduleNewDecision False [] None
                                     tr2 of
                                (r, tr3) \<Rightarrow>
                                  if r = Err ErrConflict then (Continue, tr3)
                                  else (Return r, tr3))
                           else (Return (Ok ()), tr2)
                       | (r, tr2) \<Rightarrow> (Return (failure r), tr2))
                | r \<Rightarrow> (Return (failure r), tr1)))
      | r \<Rightarrow> (Return (failure r), tr1))"

definition processDecisionTimeout ::
  "tenv \<Rightarrow> timerTaskInfo \<Rightarrow> ttrace \<Rightarrow> unit result \<times> ttrace" where
  "processDecisionTimeout env task tr =
     (let tr1 = tr @ [CacheGetOrCreateWorkflowExecution (tt_DomainID task) (tt_WorkflowID task)
                        (tt_RunID task)] in
      case cache_getOrCreateWorkflowExecution env tr1 of
        Ok _ \<Rightarrow>
          (case Update_History_Loop (conditionalRetryCount env)
                  (processDecisionTimeout_attempt env task) 0 tr1 of
             (r, tr2) \<Rightarrow> (r, tr2 @ [CacheRelease (retError r)]))
      | r \<Rightarrow> (failure r, tr1))"

definition processWorkflowTimeout_attempt ::
  "tenv \<Rightarrow> timerTaskInfo \<Rightarrow> ttrace \<Rightarrow> unit result step \<times> ttrace" where
  "processWorkflowTimeout_attempt env task tr =
     (let tr1 = tr @ [LoadMutableStateForTimerTask] in
      case loadMutableStateForTimerTask env tr1 of
        Ok present \<Rightarrow>
          if \<not> present \<or> \<not> ms_IsWorkflowExecutionRunning env tr1
          then (Return (Ok ()), tr1)
          else
            (let versionOk =
                   (case ms_GetReplicationState env tr1 of
                      None \<Rightarrow> Ok True
                    | Some rs \<Rightarrow>
                        verifyTaskVersion env tr1 (tt_DomainID task) (StartVersion rs)
                          (tt_Version task)) in
             case versionOk of
               Ok ok \<Rightarrow>
                 if \<not> ok then (Return (Ok ()), tr1)
                 else
                   (let tr2 = tr1 @ [AddTimeoutWorkflowEvent] in
                    if \<not> ms_AddTimeoutWorkflowEvent env tr2 then (Return (Ok ()), tr2)
                    else
                      (case updateWorkflowExecution env False True [] None tr2 of
                         (r, tr3) \<Rightarrow>
                           if r = Err ErrConflict then (Continue, tr3)
                           else (Return r, tr3)))
             | r \<Rightarrow> (Return (failure r), tr1))
      | r \<Rightarrow> (Return (failure r), tr1))"

definition processWorkflowTimeout ::
  "tenv \<Rightarrow> timerTaskInfo \<Rightarrow> ttrace \<Rightarrow> unit result \<times> ttrace" where
  "processWorkflowTimeout env task tr =
     (let tr1 = tr @ [CacheGetOrCreateWorkflowExecution (tt_DomainID task) (tt_WorkflowID task)
                        (tt_RunID task)] in
      case cache_getOrCreateWorkflowExecution env tr1 of
        Ok _ \<Rightarrow>
          (case Update_History_Loop (conditionalRetryCount env)
                  (processWorkflowTimeout_attempt env task) 0 tr1 of
             (r, tr2) \<Rightarrow> (r, tr2 @ [CacheRelease (retError r)]))
      | r \<Rightarrow> (failure r, tr1))"

subsection \<open>\<^verbatim>\<open>processRetryTimer\<close>\<close>

text \<open>The closure \<^verbatim>\<open>processFn\<close>. It defers \<^verbatim>\<open>release(nil)\<close> before it looks at the error of the
  cache, and releases once more by hand before the call to the matching service.\<close>

definition processRetryTimer_processFn ::
  "tenv \<Rightarrow> timerTaskInfo \<Rightarrow> ttrace \<Rightarrow> unit result \<times> ttrace" where
  "processRetryTimer_processFn env task tr =
     (let tr1 = tr @ [CacheGetOrCreateWorkflowExecution (tt_DomainID task) (tt_WorkflowID task)
                        (tt_RunID task)];
          leave = (\<lambda>(r, tr'). (r, tr' @ [CacheRelease None])) in
      case cache_getOrCreateWorkflowExecution env tr1 of
        Ok _ \<Rightarrow>
          (let tr2 = tr1 @ [LoadMutableStateForTimerTask] in
           case loadMutableStateForTimerTask env tr2 of
             Ok present \<Rightarrow>
               if \<not> present \<or> \<not> ms_IsWorkflowExecutionRunning env tr2
               then leave (Ok (), tr2)
               else
                 (let scheduledID = tt_EventID task in
                  case ms_GetActivityInfo env tr2 scheduledID of
                    None \<Rightarrow> leave (Ok (), tr2)
                  | Some ai \<Rightarrow>
                    if tt_ScheduleAttempt task < ai_Attempt ai then leave (Ok (), tr2)
                    else
                      (case verifyTaskVersion env tr2 (tt_DomainID task) (ai_Version ai)
                              (tt_Version task) of
                         Ok ok \<Rightarrow>
                           if \<not> ok then leave (Ok (), tr2)
                           else
                             (let domainID = tt_DomainID task;
                                  target =
                                    (case ms_GetActivityScheduledEventDomain env tr2 scheduledID of
                                       None \<Rightarrow> Ok domainID
                                     | Some d \<Rightarrow>
                                         (case tq_domainCache_GetDomain env tr2 d of
                                            Ok targetDomainID \<Rightarrow> Ok targetDomainID
                                          | Panic \<Rightarrow> Panic
                                          | Err e \<Rightarrow>
                                              Err (InternalServiceError
                                                ''Unable to re-schedule activity across domain.''))) in
                              case target of
                                Ok targetDomainID \<Rightarrow>
                                  (let tr3 = tr2 @ [CacheRelease None,
                                                    MatchingAddActivityTask targetDomainID domainID
                                                      (tt_WorkflowID task) (tt_RunID task)
                                                      (ai_TaskList ai) scheduledID
                                                      (ai_ScheduleToStartTimeout ai)] in
                                   leave (matchingClient_AddActivityTask env tr3, tr3))
                              | r \<Rightarrow> leave (failure r, tr2))
                       | r \<Rightarrow> leave (failure r, tr2)))
           | r \<Rightarrow> leave (failure r, tr2))
      | r \<Rightarrow> leave (failure r, tr1))"

definition processRetryTimer ::
  "tenv \<Rightarrow> timerTaskInfo \<Rightarrow> ttrace \<Rightarrow> unit result \<times> ttrace" where
  "processRetryTimer env task tr =
     Update_History_Loop (conditionalRetryCount env)
       (\<lambda>tr'. case processRetryTimer_processFn env task tr' of
                 (Ok _, tr'') \<Rightarrow> (Return (Ok ()), tr'')
               | (Err e, tr'') \<Rightarrow> (Continue, tr'')
               | (Panic, tr'') \<Rightarrow> (Return Panic, tr''))
       0 tr"

subsection \<open>\<^verbatim>\<open>process\<close>\<close>

text \<open>The \<^verbatim>\<open>switch timerTask.TaskType\<close>: the handler of the task's type. A type the switch
  does not list runs no handler and leaves \<open>err\<close> nil.\<close>

definition runHandler :: "tenv \<Rightarrow> timerTaskInfo \<Rightarrow> ttrace \<Rightarrow> unit result \<times> ttrace" where
  "runHandler env timerTask tr =
     (case tt_TaskType timerTask of
        TaskTypeUserTimer \<Rightarrow> processExpiredUserTimer env timerTask tr
      | TaskTypeActivityTimeout \<Rightarrow> processActivityTimeout env timerTask tr
      | TaskTypeDecisionTimeout \<Rightarrow> processDecisionTimeout env timerTask tr
      | TaskTypeWorkflowTimeout \<Rightarrow> processWorkflowTimeout env timerTask tr
      | TaskTypeRetryTimer \<Rightarrow> processRetryTimer env timerTask tr
      | TaskTypeDeleteHistoryEvent \<Rightarrow>
          (let tr1 = tr @ [ProcessDeleteHistoryEvent timerTask] in
           (processDeleteHistoryEvent env tr1, tr1))
      | TaskTypeOther n \<Rightarrow> (Ok (), tr))"

text \<open>
  \<^verbatim>\<open>process\<close>. The ack manager's state is the list of tasks completed so far, kept apart
  from the trace: \<^verbatim>\<open>completeTimerTask\<close> appends to it, and no handler can.
\<close>

definition process ::
  "tenv \<Rightarrow> timerTaskInfo \<Rightarrow> ttrace \<times> timerTaskInfo list
     \<Rightarrow> unit result \<times> ttrace \<times> timerTaskInfo list" where
  "process env timerTask st =
     (case st of (tr, completed) \<Rightarrow>
      (case timerTaskFilter env tr timerTask of
         Ok ok \<Rightarrow>
           if \<not> ok then (Ok (), tr, completed @ [timerTask])
           else
             (case runHandler env timerTask tr of
                (Err e, tr1) \<Rightarrow>
                  if e = EntityNotExistsError then (Ok (), tr1, completed @ [timerTask])
                  else (Err e, tr1, completed)
              | (Ok _, tr1) \<Rightarrow> (Ok (), tr1, completed @ [timerTask])
              | (Panic, tr1) \<Rightarrow> (Panic, tr1, completed))
       | r \<Rightarrow> (failure r, tr, completed)))"

subsection \<open>Notions used in the properties\<close>

text \<open>The buffered batch \<^verbatim>\<open>BufferReplicationTask\<close> makes of a request.\<close>

definition bufferedTaskOf :: "replicateEventsRequest \<Rightarrow> bufferedReplicationTask" where
  "bufferedTaskOf request =
     \<lparr>bt_FirstEventID = FirstEventId request, bt_NextEventID = NextEventId request,
      bt_Version = RequestVersion request, bt_History = History request,
      bt_NewRunHistory = NewRunHistory request\<rparr>"

text \<open>The type assertion \<^verbatim>\<open>err.(*persistence.WorkflowExecutionAlreadyStartedError)\<close> on the
  result of a create, and tests for two kinds of call in a trace.\<close>

fun isAlreadyStarted :: "unit result \<Rightarrow> bool" where
  "isAlreadyStarted (Err (PersistenceWorkflowExecutionAlreadyStartedError r s v)) = True"
| "isAlreadyStarted _ = False"

fun isDeleteHistoryCall :: "call \<Rightarrow> bool" where
  "isDeleteHistoryCall (HistoryMgrDeleteWorkflowExecutionHistory d e) = True"
| "isDeleteHistoryCall _ = False"

fun isAppendHistoryCall :: "call \<Rightarrow> bool" where
  "isAppendHistoryCall (ShardAppendHistoryEvents r) = True"
| "isAppendHistoryCall _ = False"


subsection \<open>Sample states, requests and environment\<close>

definition sampleExecutionInfo :: executionInfo where
  "sampleExecutionInfo =
     \<lparr>DomainID = ''domain'', WorkflowID = ''wf'', RunID = ''run-1'',
      ParentDomainID = [], ParentWorkflowID = [], ParentRunID = [], InitiatedID = 0,
      TaskList = ''tl'', WorkflowTypeName = ''type'', WorkflowTimeout = 60,
      DecisionTimeoutValue = 10, CreateRequestID = ''create-1'',
      CloseStatus = WorkflowCloseStatusNone, NextEventID = 10, LastFirstEventID = 8,
      StartTimestamp = 1000\<rparr>"

definition sampleMutableState :: mutableState where
  "sampleMutableState =
     \<lparr>ms_executionInfo = sampleExecutionInfo,
      ms_replicationState =
        \<lparr>CurrentVersion = 10, StartVersion = 10, LastWriteVersion = 10, LastWriteEventID = 50,
         LastReplicationInfo = Map.empty\<rparr>,
      ms_bufferedReplicationTasks = Map.empty\<rparr>"

definition sampleEvent :: "int \<Rightarrow> int \<Rightarrow> historyEvent" where
  "sampleEvent eid ver =
     \<lparr>EventId = eid, EventVersion = ver, Timestamp = 100 * eid,
      EventType = EventTypeOther ''DecisionTaskScheduled'', ContinuedExecutionRunId = []\<rparr>"

definition sampleRequest :: "int \<Rightarrow> int \<Rightarrow> int \<Rightarrow> replicateEventsRequest" where
  "sampleRequest ver first nxt =
     \<lparr>SourceCluster = ''active'', DomainUUID = Some ''domain'',
      WorkflowExecution = Some \<lparr>WorkflowId = Some ''wf'', RunId = Some ''run-1''\<rparr>,
      FirstEventId = first, NextEventId = nxt, RequestVersion = ver,
      ReplicationInfo = Map.empty,
      History = Some [sampleEvent first ver, sampleEvent (nxt - 1) ver],
      NewRunHistory = None, ForceBufferEvents = False\<rparr>"

definition sampleContext :: workflowExecutionContext where
  "sampleContext =
     \<lparr>ctx_domainID = ''domain'',
      ctx_execution = \<lparr>WorkflowId = Some ''wf'', RunId = Some ''run-1''\<rparr>\<rparr>"

text \<open>An environment in which every collaborator succeeds: transaction ids count the calls
  so far, applying a batch moves the next event id past the batch's last event.\<close>

definition sampleEnv :: env where
  "sampleEnv =
     \<lparr>EmptyEventID = - 23, EmptyVersion = - 24, FirstEventID = 1, defaultHistoryPageSize = 100,
      StandbyClusterDelay = 0,
      validateDomainUUID = (\<lambda>d. case d of None \<Rightarrow> Err (BadRequestError ''Missing domain UUID.'')
                                 | Some u \<Rightarrow> Ok u),
      ClusterNameForFailoverVersion = (\<lambda>v. if v mod 10 = 0 then ''active'' else ''standby''),
      IsVersionFromSameCluster = (\<lambda>v1 v2. (v1 - v2) mod 10 = 0),
      Serialize = (\<lambda>h. Ok \<lparr>EncodingType = ''json'', Version = 1, BatchData = []\<rparr>),
      SetSerializedHistoryDefaults = (\<lambda>b. b),
      HistorySerializerFactory_Get = (\<lambda>e. Ok ()),
      Deserialize = (\<lambda>b. Ok []),
      setTaskInfo = (\<lambda>v t transferTasks timerTasks. (transferTasks, timerTasks)),
      UpdateReplicationStateLastEventID =
        (\<lambda>ms c v e. ms\<lparr>ms_replicationState :=
                          (ms_replicationState ms)\<lparr>LastWriteVersion := v, LastWriteEventID := e\<rparr>\<rparr>),
      BufferCapacityExceeded = (\<lambda>ms. False),
      getNewMutableState = (\<lambda>v. sampleMutableState),
      uuid_New = (\<lambda>tr. ''uuid-'' @ replicate (length tr) CHR ''x''),
      historyCache_getOrCreateWorkflowExecution = (\<lambda>tr d e. Ok ()),
      context_loadWorkflowExecution = (\<lambda>tr c. Ok sampleMutableState),
      shard_GetNextTransferTaskID = (\<lambda>tr. Ok (int (length tr))),
      shard_AppendHistoryEvents = (\<lambda>tr r. Ok ()),
      shard_CreateWorkflowExecution = (\<lambda>tr r. Ok ()),
      historyMgr_GetWorkflowExecutionHistory =
        (\<lambda>tr r. Ok \<lparr>Events = [], ResponseNextPageToken = []\<rparr>),
      domainCache_GetDomainByID = (\<lambda>tr d. Ok ''domain-name''),
      historyEngine_TerminateWorkflowExecution = (\<lambda>tr d w r. Ok ()),
      sBuilder_applyEvents =
        (\<lambda>tr ms. case last tr of
            StateBuilderApplyEvents d r e (Some h) n \<Rightarrow>
              (Ok \<lparr>ae_lastEvent = last h, ae_di = None, ae_newRunStateBuilder = None,
                    ae_transferTasks = [], ae_timerTasks = [],
                    ae_newRunTransferTasks = [], ae_newRunTimerTasks = []\<rparr>,
               ms\<lparr>ms_executionInfo := (ms_executionInfo ms)\<lparr>NextEventID := EventId (last h) + 1\<rparr>\<rparr>)
          | _ \<Rightarrow> (Err (InternalServiceError ''no events''), ms)),
      context_replicateContinueAsNewWorkflowExecution = (\<lambda>tr ms. (Ok (), ms)),
      context_replicateWorkflowExecution = (\<lambda>tr ms. (Ok (), ms)),
      context_updateHelper = (\<lambda>tr ms. (Ok (), ms)),
      resolver_reset =
        (\<lambda>tr c runID lastEventID startTimestamp.
           Ok (sampleMutableState\<lparr>ms_executionInfo :=
                 sampleExecutionInfo\<lparr>RunID := runID, NextEventID := lastEventID + 1,
                                      StartTimestamp := startTimestamp\<rparr>\<rparr>))\<rparr>"

definition sampleStartEvent :: "int \<Rightarrow> historyEvent" where
  "sampleStartEvent ver =
     \<lparr>EventId = 1, EventVersion = ver, Timestamp = 100,
      EventType = EventTypeWorkflowExecutionStarted, ContinuedExecutionRunId = []\<rparr>"

definition sampleCreateRequest :: createWorkflowExecutionRequest where
  "sampleCreateRequest =
     \<lparr>cw_RequestID = ''create-1'', cw_DomainID = ''domain'',
      cw_Execution = \<lparr>WorkflowId = Some ''wf'', RunId = Some ''run-1''\<rparr>,
      cw_ParentDomainID = [], cw_ParentExecution = None, cw_InitiatedID = - 23,
      cw_TaskList = ''tl'', cw_WorkflowTypeName = ''type'', cw_WorkflowTimeout = 60,
      cw_DecisionTimeoutValue = 10, cw_NextEventID = 2, cw_LastProcessedEvent = - 23,
      cw_TransferTasks = [], cw_DecisionVersion = - 24, cw_DecisionScheduleID = - 23,
      cw_DecisionStartedID = - 23, cw_DecisionStartToCloseTimeout = 0, cw_TimerTasks = [],
      cw_ContinueAsNew = False, cw_PreviousRunID = [],
      cw_ReplicationState =
        \<lparr>CurrentVersion = 10, StartVersion = 10, LastWriteVersion = 10, LastWriteEventID = 1,
         LastReplicationInfo = Map.empty\<rparr>\<rparr>"

text \<open>The sample environment, except that creating a brand-new run fails because the run
  \<open>currentRunID\<close> exists in the given state and with the given start version.\<close>

definition alreadyStartedEnv :: "string \<Rightarrow> workflowState \<Rightarrow> int \<Rightarrow> env" where
  "alreadyStartedEnv currentRunID currentState currentStartVersion =
     sampleEnv\<lparr>shard_CreateWorkflowExecution :=
       (\<lambda>tr r. if cw_ContinueAsNew r then Ok ()
               else Err (PersistenceWorkflowExecutionAlreadyStartedError
                           currentRunID currentState currentStartVersion))\<rparr>"




section \<open>Properties of the history store\<close>

lemma scanRows_accepts:
  "scanRows ev rows (f, evs, tok) = (f', evs', tok') \<Longrightarrow>
   \<exists>acc. subseq acc rows \<and> evs' = evs @ map (batchOf ev) acc \<and>
     (\<forall>r\<in>set acc. LastEventBatchVersion tok \<le> batchVersion ev r) \<and>
     sorted (map (batchVersion ev) acc) \<and>
     LastEventBatchVersion tok' =
       (if acc = [] then LastEventBatchVersion tok else batchVersion ev (last acc)) \<and>
     Data tok' = Data tok \<and> f' = (f \<or> rows \<noteq> [])"
proof (induction rows arbitrary: f evs tok)
  case Nil
  then show ?case by auto
next
  case (Cons r rs)
  show ?case
  proof (cases "LastEventBatchVersion tok \<le> batchVersion ev r")
    case True
    let ?tok1 = "tok\<lparr>LastEventBatchVersion := batchVersion ev r\<rparr>"
    from Cons.prems True
    have "scanRows ev rs (True, evs @ [batchOf ev r], ?tok1) = (f', evs', tok')"
      by (simp add: batchVersion_def batchOf_def split: prod.splits)
    from Cons.IH[OF this] obtain acc where
      a: "subseq acc rs" "evs' = (evs @ [batchOf ev r]) @ map (batchOf ev) acc"
        "\<forall>r'\<in>set acc. LastEventBatchVersion ?tok1 \<le> batchVersion ev r'"
        "sorted (map (batchVersion ev) acc)"
        "LastEventBatchVersion tok' =
          (if acc = [] then LastEventBatchVersion ?tok1 else batchVersion ev (last acc))"
        "Data tok' = Data ?tok1" "f' = (True \<or> rs \<noteq> [])"
      by blast
    show ?thesis
      apply (rule exI[of _ "r # acc"])
      using a True by auto
  next
    case False
    from Cons.prems False
    have "scanRows ev rs (True, evs, tok) = (f', evs', tok')"
      by (simp add: batchVersion_def split: prod.splits)
    from Cons.IH[OF this] obtain acc where
      a: "subseq acc rs" "evs' = evs @ map (batchOf ev) acc"
        "\<forall>r'\<in>set acc. LastEventBatchVersion tok \<le> batchVersion ev r'"
        "sorted (map (batchVersion ev) acc)"
        "LastEventBatchVersion tok' =
          (if acc = [] then LastEventBatchVersion tok else batchVersion ev (last acc))"
        "Data tok' = Data tok" "f' = (True \<or> rs \<noteq> [])"
      by blast
    show ?thesis
      apply (rule exI[of _ acc])
      using a by auto
  qed
qed

text \<open>
  Claim C7. For a well-formed request (workflow id and run id present) whose query yields an
  iterator: every batch of a successful response comes from a row of the page, in order,
  whose \<open>event_batch_version\<close> is at least the \<open>LastEventBatchVersion\<close> of the incoming page
  token; the accepted versions never decrease, and the returned token carries the version
  of the last accepted batch (the incoming one when none is accepted) with the next cursor.
  The call fails with \<open>EntityNotExists\<close> only when the page has no rows and the request
  carried no page token; and it does fail so in that case, provided closing the iterator
  reports no error and the token can be marshalled.
\<close>

theorem GetWorkflowExecutionHistory_version_filter:
  assumes tok: "deserializeToken json ev (hr_NextPageToken request) = Ok token"
    and wid: "WorkflowId (hr_Execution request) = Some wid"
    and rid: "RunId (hr_Execution request) = Some rid"
    and it: "sess \<lparr>qDomainID = hr_DomainID request, qWorkflowId = wid, qRunId = rid,
                   qFirstEventID = hr_FirstEventID request,
                   qNextEventID = hr_NextEventID request,
                   qPageSize = hr_PageSize request, qPageState = Data token\<rparr> = Some iter"
  shows "(\<forall>resp. GetWorkflowExecutionHistory json ev sess request = Ok resp \<longrightarrow>
           (\<exists>acc. subseq acc (iterRows iter) \<and> Events resp = map (batchOf ev) acc \<and>
              (\<forall>r\<in>set acc. LastEventBatchVersion token \<le> batchVersion ev r) \<and>
              sorted (map (batchVersion ev) acc) \<and>
              serializeToken json
                \<lparr>LastEventBatchVersion =
                   (if acc = [] then LastEventBatchVersion token else batchVersion ev (last acc)),
                 Data = iterPageState iter\<rparr> = Ok (ResponseNextPageToken resp))) \<and>
         (GetWorkflowExecutionHistory json ev sess request = Err EntityNotExistsError \<longrightarrow>
            iterRows iter = [] \<and> hr_NextPageToken request = []) \<and>
         (iterRows iter = [] \<and> hr_NextPageToken request = [] \<and> iterCloseError iter = None \<and>
          (\<forall>t. Marshal json t \<noteq> None) \<longrightarrow>
            GetWorkflowExecutionHistory json ev sess request = Err EntityNotExistsError)"
proof -
  let ?tok1 = "token\<lparr>Data := iterPageState iter\<rparr>"
  obtain f evs tok2 where sc: "scanRows ev (iterRows iter) (False, [], ?tok1) = (f, evs, tok2)"
    by (cases "scanRows ev (iterRows iter) (False, [], ?tok1)") auto
  from scanRows_accepts[OF sc] obtain acc where
    a0: "subseq acc (iterRows iter) \<and> evs = [] @ map (batchOf ev) acc \<and>
       (\<forall>r\<in>set acc. LastEventBatchVersion ?tok1 \<le> batchVersion ev r) \<and>
       sorted (map (batchVersion ev) acc) \<and>
       LastEventBatchVersion tok2 =
          (if acc = [] then LastEventBatchVersion ?tok1 else batchVersion ev (last acc)) \<and>
       Data tok2 = Data ?tok1 \<and> f = (False \<or> iterRows iter \<noteq> [])"
    by blast
  then have
    a: "subseq acc (iterRows iter)" "evs = map (batchOf ev) acc"
       "\<forall>r\<in>set acc. LastEventBatchVersion token \<le> batchVersion ev r"
       "sorted (map (batchVersion ev) acc)"
       "LastEventBatchVersion tok2 =
          (if acc = [] then LastEventBatchVersion token else batchVersion ev (last acc))"
       "Data tok2 = iterPageState iter" "f = (iterRows iter \<noteq> [])"
    by simp_all
  have tok2: "tok2 = \<lparr>LastEventBatchVersion =
                   (if acc = [] then LastEventBatchVersion token else batchVersion ev (last acc)),
                 Data = iterPageState iter\<rparr>"
    using a(5,6) by (cases tok2) simp
  have unfold: "GetWorkflowExecutionHistory json ev sess request =
     (case serializeToken json tok2 of
        Panic \<Rightarrow> Panic
      | Err e \<Rightarrow> Err e
      | Ok data \<Rightarrow>
         (case iterCloseError iter of
            Some msg \<Rightarrow> Err (InternalServiceError
                (''GetWorkflowExecutionHistory operation failed. Error: '' @ msg))
          | None \<Rightarrow> if \<not> f \<and> length (hr_NextPageToken request) = 0
                    then Err EntityNotExistsError
                    else Ok \<lparr>Events = evs, ResponseNextPageToken = data\<rparr>))"
    using tok wid rid it sc by (simp add: GetWorkflowExecutionHistory_def)
  have ser: "serializeToken json tok2 \<noteq> Err EntityNotExistsError"
    by (simp add: serializeToken_def split: option.splits)
  have c1: "\<forall>resp. GetWorkflowExecutionHistory json ev sess request = Ok resp \<longrightarrow>
           (\<exists>acc. subseq acc (iterRows iter) \<and> Events resp = map (batchOf ev) acc \<and>
              (\<forall>r\<in>set acc. LastEventBatchVersion token \<le> batchVersion ev r) \<and>
              sorted (map (batchVersion ev) acc) \<and>
              serializeToken json
                \<lparr>LastEventBatchVersion =
                   (if acc = [] then LastEventBatchVersion token else batchVersion ev (last acc)),
                 Data = iterPageState iter\<rparr> = Ok (ResponseNextPageToken resp))"
  proof (intro allI impI)
    fix resp assume "GetWorkflowExecutionHistory json ev sess request = Ok resp"
    with unfold have "Events resp = evs \<and> serializeToken json tok2 = Ok (ResponseNextPageToken resp)"
      by (auto split: result.splits option.splits if_splits)
    with a tok2 show "\<exists>acc. subseq acc (iterRows iter) \<and> Events resp = map (batchOf ev) acc \<and>
              (\<forall>r\<in>set acc. LastEventBatchVersion token \<le> batchVersion ev r) \<and>
              sorted (map (batchVersion ev) acc) \<and>
              serializeToken json
                \<lparr>LastEventBatchVersion =
                   (if acc = [] then LastEventBatchVersion token else batchVersion ev (last acc)),
                 Data = iterPageState iter\<rparr> = Ok (ResponseNextPageToken resp)"
      by (intro exI[of _ acc]) simp
  qed
  have c2: "GetWorkflowExecutionHistory json ev sess request = Err EntityNotExistsError \<longrightarrow>
            iterRows iter = [] \<and> hr_NextPageToken request = []"
    using unfold ser a(7) by (auto split: result.splits option.splits if_splits)
  have c3: "iterRows iter = [] \<and> hr_NextPageToken request = [] \<and> iterCloseError iter = None \<and>
          (\<forall>t. Marshal json t \<noteq> None) \<longrightarrow>
            GetWorkflowExecutionHistory json ev sess request = Err EntityNotExistsError"
    using unfold a(7) by (auto simp: serializeToken_def split: result.splits option.splits if_splits)
  from c1 c2 c3 show ?thesis by blast
qed

theorem GetWorkflowExecutionHistory_version_filter_witness:
  "GetWorkflowExecutionHistory sampleCodec (- 24)
      (sampleSession [sampleRow 3, sampleRow 5, sampleRow 2, sampleRow 5])
      (sampleHistoryRequest [4, 1])
     = Ok \<lparr>Events = [batchOf (- 24) (sampleRow 5), batchOf (- 24) (sampleRow 5)],
           ResponseNextPageToken = [5, 2]\<rparr> \<and>
   (\<exists>acc. subseq acc [sampleRow 3, sampleRow 5, sampleRow 2, sampleRow 5] \<and>
      [batchOf (- 24) (sampleRow 5), batchOf (- 24) (sampleRow 5)] = map (batchOf (- 24)) acc \<and>
      (\<forall>r\<in>set acc. 4 \<le> batchVersion (- 24) r)) \<and>
   GetWorkflowExecutionHistory sampleCodec (- 24) (sampleSession []) (sampleHistoryRequest [])
     = Err EntityNotExistsError"
proof -
  let ?rows = "[sampleRow 3, sampleRow 5, sampleRow 2, sampleRow 5]"
  let ?resp = "\<lparr>Events = [batchOf (- 24) (sampleRow 5), batchOf (- 24) (sampleRow 5)],
           ResponseNextPageToken = [5, 2]\<rparr>"
  let ?req = "sampleHistoryRequest [4, 1]"
  let ?tok = "\<lparr>LastEventBatchVersion = 4, Data = [1]\<rparr> :: historyToken"
  let ?iter = "\<lparr>iterRows = ?rows, iterPageState = [2], iterCloseError = None\<rparr>"
  have tok: "deserializeToken sampleCodec (- 24) (hr_NextPageToken ?req) = Ok ?tok"
    by (simp add: deserializeToken_def sampleCodec_def sampleHistoryRequest_def)
  have wid: "WorkflowId (hr_Execution ?req) = Some ''wf''"
    and rid: "RunId (hr_Execution ?req) = Some ''run''"
    by (simp_all add: sampleHistoryRequest_def)
  have it: "sampleSession ?rows \<lparr>qDomainID = hr_DomainID ?req, qWorkflowId = ''wf'',
              qRunId = ''run'', qFirstEventID = hr_FirstEventID ?req,
              qNextEventID = hr_NextEventID ?req, qPageSize = hr_PageSize ?req,
              qPageState = Data ?tok\<rparr> = Some ?iter"
    by (simp add: sampleSession_def)
  have run: "GetWorkflowExecutionHistory sampleCodec (- 24) (sampleSession ?rows) ?req = Ok ?resp"
    by (simp add: GetWorkflowExecutionHistory_def deserializeToken_def serializeToken_def
          sampleCodec_def sampleHistoryRequest_def sampleSession_def sampleRow_def
          createSerializedHistoryEventBatch_def batchOf_def)
  from GetWorkflowExecutionHistory_version_filter[where sess = "sampleSession ?rows", OF tok wid rid it] run
  obtain acc where acc: "subseq acc (iterRows ?iter)" "Events ?resp = map (batchOf (- 24)) acc"
      "\<forall>r\<in>set acc. LastEventBatchVersion ?tok \<le> batchVersion (- 24) r"
    by blast
  then have a: "\<exists>acc. subseq acc ?rows \<and>
      [batchOf (- 24) (sampleRow 5), batchOf (- 24) (sampleRow 5)] = map (batchOf (- 24)) acc \<and>
      (\<forall>r\<in>set acc. 4 \<le> batchVersion (- 24) r)"
    by (intro exI[of _ acc]) simp
  let ?req0 = "sampleHistoryRequest []"
  let ?tok0 = "\<lparr>LastEventBatchVersion = - 24, Data = []\<rparr> :: historyToken"
  let ?iter0 = "\<lparr>iterRows = [], iterPageState = [2], iterCloseError = None\<rparr>"
  have tok0: "deserializeToken sampleCodec (- 24) (hr_NextPageToken ?req0) = Ok ?tok0"
    by (simp add: deserializeToken_def sampleHistoryRequest_def)
  have wid0: "WorkflowId (hr_Execution ?req0) = Some ''wf''"
    and rid0: "RunId (hr_Execution ?req0) = Some ''run''"
    by (simp_all add: sampleHistoryRequest_def)
  have it0: "sampleSession [] \<lparr>qDomainID = hr_DomainID ?req0, qWorkflowId = ''wf'',
              qRunId = ''run'', qFirstEventID = hr_FirstEventID ?req0,
              qNextEventID = hr_NextEventID ?req0, qPageSize = hr_PageSize ?req0,
              qPageState = Data ?tok0\<rparr> = Some ?iter0"
    by (simp add: sampleSession_def)
  have m: "\<forall>t. Marshal sampleCodec t \<noteq> None"
    by (simp add: sampleCodec_def)
  have e: "iterRows ?iter0 = [] \<and> hr_NextPageToken ?req0 = [] \<and> iterCloseError ?iter0 = None"
    by (simp add: sampleHistoryRequest_def)
  from GetWorkflowExecutionHistory_version_filter[where sess = "sampleSession []", OF tok0 wid0 rid0 it0] m e
  have b: "GetWorkflowExecutionHistory sampleCodec (- 24) (sampleSession []) ?req0
             = Err EntityNotExistsError"
    by blast
  from run a b show ?thesis by blast
qed

text \<open>
  Claim C8, as amended. A token with a non-empty cursor survives the round trip whenever the
  JSON library round-trips it (marshalling gives non-empty bytes that unmarshal to the
  token). A token with an empty cursor serializes to no bytes at all, and deserializing
  those gives the empty cursor with \<open>LastEventBatchVersion = EmptyVersion\<close>, whatever the
  version of the token was.
\<close>

theorem tokenRoundTrip_amended:
  "(Data t \<noteq> [] \<and> Marshal json t = Some d \<and> d \<noteq> [] \<and>
      Unmarshal json d \<lparr>LastEventBatchVersion = ev, Data = []\<rparr> = (True, t) \<longrightarrow>
      serializeToken json t = Ok d \<and> tokenRoundTrip json ev t = Ok t) \<and>
   (Data t = [] \<longrightarrow>
      serializeToken json t = Ok [] \<and>
      tokenRoundTrip json ev t = Ok \<lparr>LastEventBatchVersion = ev, Data = []\<rparr>)"
  by (auto simp: tokenRoundTrip_def serializeToken_def deserializeToken_def)

theorem tokenRoundTrip_amended_witness:
  "tokenRoundTrip sampleCodec (- 24) \<lparr>LastEventBatchVersion = 4, Data = [7, 9]\<rparr>
     = Ok \<lparr>LastEventBatchVersion = 4, Data = [7, 9]\<rparr> \<and>
   tokenRoundTrip sampleCodec (- 24) \<lparr>LastEventBatchVersion = - 24, Data = []\<rparr>
     = Ok \<lparr>LastEventBatchVersion = - 24, Data = []\<rparr>"
  using tokenRoundTrip_amended[of "\<lparr>LastEventBatchVersion = 4, Data = [7, 9]\<rparr>" sampleCodec
          "[4, 7, 9]" "- 24"]
        tokenRoundTrip_amended[of "\<lparr>LastEventBatchVersion = - 24, Data = []\<rparr>" sampleCodec
          "[]" "- 24"]
  by (simp add: sampleCodec_def)

text \<open>The claim as stated fails for an empty cursor: a token with version 5 and no cursor
  comes back with version \<open>EmptyVersion\<close>.\<close>

theorem tokenRoundTrip_counterexample:
  "tokenRoundTrip sampleCodec (- 24) \<lparr>LastEventBatchVersion = 5, Data = []\<rparr>
     = Ok \<lparr>LastEventBatchVersion = - 24, Data = []\<rparr> \<and>
   LastEventBatchVersion \<lparr>LastEventBatchVersion = - 24, Data = ([] :: byte list)\<rparr>
     \<noteq> LastEventBatchVersion \<lparr>LastEventBatchVersion = 5, Data = ([] :: byte list)\<rparr>"
  by (simp add: tokenRoundTrip_def serializeToken_def deserializeToken_def)

section \<open>Properties of the history replicator\<close>

text \<open>
  Claim C10 says that \<^verbatim>\<open>ApplyEvents\<close> returns success for a nil request, for a request with a
  nil history and for a request with an empty event list. The code does so only for the
  empty event list: a nil request panics when the logger fields read
  \<^verbatim>\<open>request.WorkflowExecution\<close>, and a nil history panics when the metric reads
  \<^verbatim>\<open>len(request.History.Events)\<close>; the guard that tests for both comes later. In each of
  the three cases no collaborator is called: the trace stays as it was.
\<close>

theorem ApplyEvents_degenerate_requests:
  "ApplyEvents depth env None tr = Some (Panic, tr) \<and>
   ApplyEvents depth env (Some (req\<lparr>History := None\<rparr>)) tr = Some (Panic, tr) \<and>
   ApplyEvents depth env (Some (req\<lparr>History := Some []\<rparr>)) tr = Some (Ok (), tr)"
  by (simp add: ApplyEvents_def)

text \<open>
  Claim C1. With \<open>rState\<close> the replication state of the loaded mutable state:
  a request with a lower version than \<open>LastWriteVersion rState\<close> is dropped (no mutable
  state, no error, no call to a collaborator); with the same version the mutable state
  is returned as it is; with a higher version, if the request has no replication info for
  the previous active cluster, the mutable state is returned as it is when the two
  versions are of the same cluster and \<open>ErrMissingReplicationInfo\<close> is returned otherwise;
  if the entry's last event id is above \<open>LastWriteEventID rState\<close> the result is
  \<open>ErrCorruptedReplicationInfo\<close>; if it is below, and the continue-as-new step of conflict
  resolution goes through, the resolver's \<open>reset\<close> is called with a run id fresh from the
  uuid generator, the entry's last event id and the start timestamp of the mutable state,
  and the mutable state it builds is returned.
\<close>

theorem ApplyOtherEventsVersionChecking_cases:
  "(let rState = GetReplicationState msBuilder;
        incomingVersion = RequestVersion request;
        previousActiveCluster = ClusterNameForFailoverVersion env (LastWriteVersion rState);
        startTimestamp = StartTimestamp (GetExecutionInfo msBuilder);
        result = ApplyOtherEventsVersionChecking env context msBuilder request tr
    in
      (LastWriteVersion rState > incomingVersion \<longrightarrow> result = Some (Ok None, tr)) \<and>
      (LastWriteVersion rState = incomingVersion \<longrightarrow> result = Some (Ok (Some msBuilder), tr)) \<and>
      (LastWriteVersion rState < incomingVersion \<longrightarrow>
         (case ReplicationInfo request previousActiveCluster of
            None \<Rightarrow>
              (IsVersionFromSameCluster env incomingVersion (LastWriteVersion rState) \<longrightarrow>
                 result = Some (Ok (Some msBuilder), tr)) \<and>
              (\<not> IsVersionFromSameCluster env incomingVersion (LastWriteVersion rState) \<longrightarrow>
                 result = Some (Err ErrMissingReplicationInfo, tr))
          | Some ri \<Rightarrow>
              (ri_LastEventId ri > LastWriteEventID rState \<longrightarrow>
                 result = Some (Err ErrCorruptedReplicationInfo, tr)) \<and>
              (ri_LastEventId ri < LastWriteEventID rState \<longrightarrow>
                 (\<forall>tr1 msBuilder'.
                    conflictResolutionTerminateContinueAsNew env msBuilder tr = Some (Ok (), tr1) \<and>
                    resolver_reset env
                      (tr1 @ [UuidNew,
                              ConflictResolverReset context (uuid_New env (tr1 @ [UuidNew]))
                                (ri_LastEventId ri) startTimestamp])
                      context (uuid_New env (tr1 @ [UuidNew])) (ri_LastEventId ri) startTimestamp
                      = Ok msBuilder' \<longrightarrow>
                    result =
                      Some (Ok (Some msBuilder'),
                            tr1 @ [UuidNew,
                                   ConflictResolverReset context (uuid_New env (tr1 @ [UuidNew]))
                                     (ri_LastEventId ri) startTimestamp]))))))"
  by (auto simp: ApplyOtherEventsVersionChecking_def Let_def split: option.splits)

lemma sample_running: "IsWorkflowExecutionRunning sampleMutableState"
  by (simp add: IsWorkflowExecutionRunning_def sampleMutableState_def sampleExecutionInfo_def)

theorem ApplyOtherEventsVersionChecking_cases_witness:
  "ApplyOtherEventsVersionChecking sampleEnv sampleContext sampleMutableState
      ((sampleRequest 11 51 53)
         \<lparr>ReplicationInfo := [''active'' \<mapsto> \<lparr>ri_Version = 10, ri_LastEventId = 40\<rparr>]\<rparr>) []
     = Some (Ok (Some (sampleMutableState\<lparr>ms_executionInfo :=
                         sampleExecutionInfo\<lparr>RunID := ''uuid-x'', NextEventID := 41,
                                              StartTimestamp := 1000\<rparr>\<rparr>)),
             [UuidNew, ConflictResolverReset sampleContext ''uuid-x'' 40 1000]) \<and>
   ApplyOtherEventsVersionChecking sampleEnv sampleContext sampleMutableState
      (sampleRequest 9 51 53) [] = Some (Ok None, []) \<and>
   ApplyOtherEventsVersionChecking sampleEnv sampleContext sampleMutableState
      (sampleRequest 11 51 53) [] = Some (Err ErrMissingReplicationInfo, [])"
proof -
  have t: "conflictResolutionTerminateContinueAsNew sampleEnv sampleMutableState []
             = Some (Ok (), [])"
    using sample_running by (simp add: conflictResolutionTerminateContinueAsNew_def)
  show ?thesis
    using t
      ApplyOtherEventsVersionChecking_cases[of sampleMutableState
        "(sampleRequest 11 51 53)
           \<lparr>ReplicationInfo := [''active'' \<mapsto> \<lparr>ri_Version = 10, ri_LastEventId = 40\<rparr>]\<rparr>"
        sampleEnv sampleContext "[]"]
      ApplyOtherEventsVersionChecking_cases[of sampleMutableState "sampleRequest 9 51 53"
        sampleEnv sampleContext "[]"]
      ApplyOtherEventsVersionChecking_cases[of sampleMutableState "sampleRequest 11 51 53"
        sampleEnv sampleContext "[]"]
    by (simp add: Let_def GetReplicationState_def GetExecutionInfo_def sampleMutableState_def
          sampleExecutionInfo_def sampleRequest_def sampleEnv_def)
qed

text \<open>
  Claim C2. With \<open>N\<close> the next event id of the mutable state: a request whose first event
  id is below \<open>N\<close> is dropped, with no error, the state as it was and no call to a
  collaborator; one whose first event id is above \<open>N\<close> gets \<open>ErrRetryBufferEvents\<close>, again
  with nothing changed, unless it forces buffering. A forced request that carries events,
  and finds room in the buffer and a transaction id, is stored in the buffer under its
  first event id; the only calls are for the transaction id and \<^verbatim>\<open>updateHelper\<close>, the latter
  with no transfer or timer tasks, with \<^verbatim>\<open>createReplicationTask = false\<close> and with the
  timestamp of the last event of the batch; the state handed to the commit has the old
  next event id and the old replication state. A request whose first event id is \<open>N\<close> is
  applied, and when that goes through the result is that of flushing the buffer.
\<close>

theorem ApplyOtherEvents_cases:
  "(let N = GetNextEventID msBuilder;
        firstEventID = FirstEventId request;
        result = ApplyOtherEvents flushCurrent env context msBuilder request tr
    in
      (firstEventID < N \<longrightarrow> result = Some (Ok (), msBuilder, tr)) \<and>
      (firstEventID > N \<and> \<not> ForceBufferEvents request \<longrightarrow>
         result = Some (Err ErrRetryBufferEvents, msBuilder, tr)) \<and>
      (firstEventID > N \<and> ForceBufferEvents request \<longrightarrow>
         (\<forall>events transactionID.
            History request = Some events \<and> events \<noteq> [] \<and>
            \<not> BufferCapacityExceeded env msBuilder \<and>
            shard_GetNextTransferTaskID env (tr @ [ShardGetNextTransferTaskID]) = Ok transactionID
            \<longrightarrow>
            (let buffered =
                   msBuilder\<lparr>ms_bufferedReplicationTasks :=
                     (ms_bufferedReplicationTasks msBuilder)
                       (firstEventID \<mapsto> bufferedTaskOf request)\<rparr>;
                 tr2 = tr @ [ShardGetNextTransferTaskID,
                             ContextUpdateHelper context [] [] transactionID
                               (Timestamp (last events)) False
                               (ClusterNameForFailoverVersion env (GetLastWriteVersion msBuilder))]
             in result = Some (fst (context_updateHelper env tr2 buffered),
                               snd (context_updateHelper env tr2 buffered), tr2) \<and>
                GetBufferedReplicationTask buffered firstEventID = Some (bufferedTaskOf request) \<and>
                GetNextEventID buffered = N \<and>
                GetReplicationState buffered = GetReplicationState msBuilder))) \<and>
      (firstEventID = N \<longrightarrow>
         (\<forall>ms1 tr1. ApplyReplicationTask flushCurrent env context msBuilder request tr
                       = Some (Ok (), ms1, tr1)
            \<longrightarrow> result = FlushBuffer flushCurrent env context ms1 tr1)))"
  by (auto simp: ApplyOtherEvents_def BufferReplicationTask_def bufferedTaskOf_def Let_def
        GetBufferedReplicationTask_def GetNextEventID_def GetReplicationState_def
        GetLastWriteVersion_def
      split: prod.splits)

theorem ApplyOtherEvents_cases_witness:
  "ApplyOtherEvents (flushCurrentWorkflowBuffer 1 sampleEnv) sampleEnv sampleContext
      sampleMutableState (sampleRequest 10 12 15) []
     = Some (Err ErrRetryBufferEvents, sampleMutableState, []) \<and>
   ApplyOtherEvents (flushCurrentWorkflowBuffer 1 sampleEnv) sampleEnv sampleContext
      sampleMutableState ((sampleRequest 10 12 15)\<lparr>ForceBufferEvents := True\<rparr>) []
     = Some (Ok (),
             sampleMutableState\<lparr>ms_bufferedReplicationTasks :=
                [12 \<mapsto> bufferedTaskOf ((sampleRequest 10 12 15)\<lparr>ForceBufferEvents := True\<rparr>)]\<rparr>,
             [ShardGetNextTransferTaskID,
              ContextUpdateHelper sampleContext [] [] 1 1400 False ''active'']) \<and>
   map_option (\<lambda>(r, ms, tr). (r, GetNextEventID ms, HasBufferedReplicationTasks ms))
     (ApplyOtherEvents (flushCurrentWorkflowBuffer 1 sampleEnv) sampleEnv sampleContext
        (sampleMutableState\<lparr>ms_bufferedReplicationTasks :=
           [12 \<mapsto> bufferedTaskOf (sampleRequest 10 12 15)]\<rparr>)
        (sampleRequest 10 10 12) [])
     = Some (Ok (), 15, False) \<and>
   ApplyOtherEvents (flushCurrentWorkflowBuffer 1 sampleEnv) sampleEnv sampleContext
      sampleMutableState (sampleRequest 10 8 10) []
     = Some (Ok (), sampleMutableState, [])"
proof -
  let ?flush = "flushCurrentWorkflowBuffer 1 sampleEnv"
  let ?buffered = "sampleMutableState\<lparr>ms_bufferedReplicationTasks :=
           [12 \<mapsto> bufferedTaskOf (sampleRequest 10 12 15)]\<rparr>"
  have w1: "ApplyOtherEvents ?flush sampleEnv sampleContext sampleMutableState
              (sampleRequest 10 12 15) []
     = Some (Err ErrRetryBufferEvents, sampleMutableState, [])"
    using ApplyOtherEvents_cases[of sampleMutableState "sampleRequest 10 12 15" ?flush sampleEnv
            sampleContext "[]"]
    by (simp add: Let_def GetNextEventID_def sampleMutableState_def sampleExecutionInfo_def
          sampleRequest_def)
  have w2: "ApplyOtherEvents ?flush sampleEnv sampleContext sampleMutableState
      ((sampleRequest 10 12 15)\<lparr>ForceBufferEvents := True\<rparr>) []
     = Some (Ok (),
             sampleMutableState\<lparr>ms_bufferedReplicationTasks :=
                [12 \<mapsto> bufferedTaskOf ((sampleRequest 10 12 15)\<lparr>ForceBufferEvents := True\<rparr>)]\<rparr>,
             [ShardGetNextTransferTaskID,
              ContextUpdateHelper sampleContext [] [] 1 1400 False ''active''])"
    using ApplyOtherEvents_cases[of sampleMutableState
            "(sampleRequest 10 12 15)\<lparr>ForceBufferEvents := True\<rparr>" ?flush sampleEnv
            sampleContext "[]"]
    by (simp add: Let_def GetNextEventID_def GetLastWriteVersion_def sampleMutableState_def
          sampleExecutionInfo_def sampleRequest_def sampleEnv_def sampleEvent_def)
  obtain ms1 tr1 where
    a: "ApplyReplicationTask ?flush sampleEnv sampleContext ?buffered (sampleRequest 10 10 12) []
          = Some (Ok (), ms1, tr1)"
    and ms1: "ms1 = ?buffered\<lparr>ms_executionInfo := sampleExecutionInfo\<lparr>NextEventID := 12\<rparr>\<rparr>"
    by (simp add: ApplyReplicationTask_def ApplyReplicationTask_commit_def notify_def Let_def
          sampleEnv_def sampleRequest_def sampleEvent_def sampleMutableState_def)
  have f: "map_option (\<lambda>(r, ms, tr). (r, GetNextEventID ms, HasBufferedReplicationTasks ms))
             (FlushBuffer ?flush sampleEnv sampleContext ms1 tr1) = Some (Ok (), 15, False)"
    unfolding ms1
    by (simp add: FlushBuffer_def FlushBuffer_loop.simps HasBufferedReplicationTasks_def
          GetBufferedReplicationTask_def DeleteBufferedReplicationTask_def GetBufferedHistory_def
          GetNextEventID_def GetExecutionInfo_def bufferedTaskOf_def
          ApplyReplicationTask_def ApplyReplicationTask_commit_def notify_def Let_def
          sampleEnv_def sampleRequest_def sampleEvent_def
          sampleMutableState_def sampleExecutionInfo_def)
  have w3: "map_option (\<lambda>(r, ms, tr). (r, GetNextEventID ms, HasBufferedReplicationTasks ms))
     (ApplyOtherEvents ?flush sampleEnv sampleContext ?buffered (sampleRequest 10 10 12) [])
     = Some (Ok (), 15, False)"
    using ApplyOtherEvents_cases[of ?buffered "sampleRequest 10 10 12" ?flush sampleEnv
            sampleContext "[]"]
      a f
    by (simp add: Let_def GetNextEventID_def sampleMutableState_def sampleExecutionInfo_def
          sampleRequest_def)
  have w4: "ApplyOtherEvents ?flush sampleEnv sampleContext sampleMutableState
              (sampleRequest 10 8 10) []
     = Some (Ok (), sampleMutableState, [])"
    using ApplyOtherEvents_cases[of sampleMutableState "sampleRequest 10 8 10" ?flush sampleEnv
            sampleContext "[]"]
    by (simp add: Let_def GetNextEventID_def sampleMutableState_def sampleExecutionInfo_def
          sampleRequest_def)
  from w1 w2 w3 w4 show ?thesis by blast
qed

text \<open>
  Claim C3. Let the first create, of a brand-new run, fail with
  \<open>WorkflowExecutionAlreadyStarted\<close> for a run \<open>currentRunID\<close> in state \<open>currentState\<close> with
  start version \<open>currentStartVersion\<close>. If \<open>currentRunID\<close> is the incoming run id, the task
  is dropped and nothing more is called. If the existing run is completed, the task is
  dropped and the history deleted when \<open>currentStartVersion\<close> is above the incoming
  version, and otherwise the run is created again with \<open>ContinueAsNew\<close> set and
  \<open>PreviousRunID = currentRunID\<close>. If the existing run is not completed: above the
  incoming version the task is dropped and the history deleted; at the incoming version
  the current workflow's buffer is flushed and, when the flush returns without error,
  \<open>ErrRetryExistingWorkflow\<close> is returned, with nothing called after the flush; below it
  the existing run is terminated and, when the termination succeeds or finds the run
  gone, the new run is created with \<open>PreviousRunID = currentRunID\<close>.
\<close>

theorem replicateWorkflowStarted_alreadyStarted_cases:
  "(let req0 = req\<lparr>cw_ContinueAsNew := False, cw_PreviousRunID := []\<rparr>;
        tr1 = tr @ [ShardCreateWorkflowExecution req0];
        reqPrev = req\<lparr>cw_ContinueAsNew := True, cw_PreviousRunID := currentRunID\<rparr>;
        domainID = DomainID executionInfo;
        workflowID = WorkflowID executionInfo;
        deleted = tr1 @ [HistoryMgrDeleteWorkflowExecutionHistory domainID execution];
        result = replicateWorkflowStarted_create flushCurrent env req executionInfo execution
                   incomingVersion tr
    in
    shard_CreateWorkflowExecution env tr1 req0 =
      Err (PersistenceWorkflowExecutionAlreadyStartedError
             currentRunID currentState currentStartVersion) \<longrightarrow>
      (Some currentRunID = RunId execution \<longrightarrow> result = Some (Ok (), tr1)) \<and>
      (Some currentRunID \<noteq> RunId execution \<and> currentState = WorkflowStateCompleted \<longrightarrow>
         (currentStartVersion > incomingVersion \<longrightarrow> result = Some (Ok (), deleted)) \<and>
         (currentStartVersion \<le> incomingVersion \<longrightarrow>
            result = Some (shard_CreateWorkflowExecution env
                             (tr1 @ [ShardCreateWorkflowExecution reqPrev]) reqPrev,
                           tr1 @ [ShardCreateWorkflowExecution reqPrev]))) \<and>
      (Some currentRunID \<noteq> RunId execution \<and> currentState \<noteq> WorkflowStateCompleted \<longrightarrow>
         (currentStartVersion > incomingVersion \<longrightarrow> result = Some (Ok (), deleted)) \<and>
         (currentStartVersion = incomingVersion \<longrightarrow>
            (\<forall>flushed.
               flushCurrent domainID (case WorkflowId execution of None \<Rightarrow> [] | Some w \<Rightarrow> w) tr1
                 = Some (Ok (), flushed) \<longrightarrow>
               result = Some (Err ErrRetryExistingWorkflow, flushed))) \<and>
         (currentStartVersion < incomingVersion \<longrightarrow>
            (\<forall>domainName terminated.
               domainCache_GetDomainByID env (tr1 @ [DomainCacheGetDomainByID domainID]) domainID
                 = Ok domainName \<and>
               terminated = tr1 @ [DomainCacheGetDomainByID domainID,
                                   HistoryEngineTerminateWorkflowExecution domainID domainName
                                     workflowID currentRunID] \<and>
               (historyEngine_TerminateWorkflowExecution env terminated domainID workflowID
                  currentRunID = Ok () \<or>
                historyEngine_TerminateWorkflowExecution env terminated domainID workflowID
                  currentRunID = Err EntityNotExistsError) \<longrightarrow>
               result = Some (shard_CreateWorkflowExecution env
                                (terminated @ [ShardCreateWorkflowExecution reqPrev]) reqPrev,
                              terminated @ [ShardCreateWorkflowExecution reqPrev])))))"
  by (auto simp: replicateWorkflowStarted_create_def replicateWorkflowStarted_alreadyStarted_def
        createWorkflow_def deleteHistory_def terminateWorkflow_def Let_def)

text \<open>In the sample environments the current run has an empty buffer: a flush of it loads
  the run, finds nothing to apply and releases it.\<close>

lemma sample_flush:
  "flushCurrentWorkflowBuffer 1 (alreadyStartedEnv r s v) d w tr
     = Some (Ok (), tr @ [HistoryCacheGetOrCreateWorkflowExecution d
                            \<lparr>WorkflowId = Some w, RunId = None\<rparr>,
                          ContextLoadWorkflowExecution
                            \<lparr>ctx_domainID = d,
                             ctx_execution = \<lparr>WorkflowId = Some w, RunId = None\<rparr>\<rparr>,
                          Release \<lparr>ctx_domainID = d,
                                   ctx_execution = \<lparr>WorkflowId = Some w, RunId = None\<rparr>\<rparr> None])"
  by (simp add: getCurrentWorkflowMutableState_def FlushBuffer_def FlushBuffer_loop.simps
        HasBufferedReplicationTasks_def Let_def alreadyStartedEnv_def sampleEnv_def
        sampleMutableState_def)

lemma alreadyStartedEnv_answers:
  "shard_CreateWorkflowExecution (alreadyStartedEnv r s v) tr req =
     (if cw_ContinueAsNew req then Ok ()
      else Err (PersistenceWorkflowExecutionAlreadyStartedError r s v))"
  "domainCache_GetDomainByID (alreadyStartedEnv r s v) tr d = Ok ''domain-name''"
  "historyEngine_TerminateWorkflowExecution (alreadyStartedEnv r s v) tr d w c = Ok ()"
  by (simp_all add: alreadyStartedEnv_def sampleEnv_def)

theorem replicateWorkflowStarted_alreadyStarted_cases_witness:
  "replicateWorkflowStarted_create
      (flushCurrentWorkflowBuffer 1 (alreadyStartedEnv ''run-0'' WorkflowStateRunning 10))
      (alreadyStartedEnv ''run-0'' WorkflowStateRunning 10)
      sampleCreateRequest sampleExecutionInfo
      \<lparr>WorkflowId = Some ''wf'', RunId = Some ''run-1''\<rparr> 11 []
     = Some (Ok (),
        [ShardCreateWorkflowExecution sampleCreateRequest,
         DomainCacheGetDomainByID ''domain'',
         HistoryEngineTerminateWorkflowExecution ''domain'' ''domain-name'' ''wf'' ''run-0'',
         ShardCreateWorkflowExecution
           (sampleCreateRequest\<lparr>cw_ContinueAsNew := True, cw_PreviousRunID := ''run-0''\<rparr>)]) \<and>
   replicateWorkflowStarted_create
      (flushCurrentWorkflowBuffer 1 (alreadyStartedEnv ''run-0'' WorkflowStateRunning 10))
      (alreadyStartedEnv ''run-0'' WorkflowStateRunning 10)
      sampleCreateRequest sampleExecutionInfo
      \<lparr>WorkflowId = Some ''wf'', RunId = Some ''run-1''\<rparr> 10 []
     = Some (Err ErrRetryExistingWorkflow,
        [ShardCreateWorkflowExecution sampleCreateRequest,
         HistoryCacheGetOrCreateWorkflowExecution ''domain''
           \<lparr>WorkflowId = Some ''wf'', RunId = None\<rparr>,
         ContextLoadWorkflowExecution
           \<lparr>ctx_domainID = ''domain'',
            ctx_execution = \<lparr>WorkflowId = Some ''wf'', RunId = None\<rparr>\<rparr>,
         Release \<lparr>ctx_domainID = ''domain'',
                  ctx_execution = \<lparr>WorkflowId = Some ''wf'', RunId = None\<rparr>\<rparr> None]) \<and>
   replicateWorkflowStarted_create
      (flushCurrentWorkflowBuffer 1 (alreadyStartedEnv ''run-0'' WorkflowStateCompleted 10))
      (alreadyStartedEnv ''run-0'' WorkflowStateCompleted 10)
      sampleCreateRequest sampleExecutionInfo
      \<lparr>WorkflowId = Some ''wf'', RunId = Some ''run-1''\<rparr> 10 []
     = Some (Ok (),
        [ShardCreateWorkflowExecution sampleCreateRequest,
         ShardCreateWorkflowExecution
           (sampleCreateRequest\<lparr>cw_ContinueAsNew := True, cw_PreviousRunID := ''run-0''\<rparr>)]) \<and>
   replicateWorkflowStarted_create
      (flushCurrentWorkflowBuffer 1 (alreadyStartedEnv ''run-1'' WorkflowStateRunning 10))
      (alreadyStartedEnv ''run-1'' WorkflowStateRunning 10)
      sampleCreateRequest sampleExecutionInfo
      \<lparr>WorkflowId = Some ''wf'', RunId = Some ''run-1''\<rparr> 10 []
     = Some (Ok (), [ShardCreateWorkflowExecution sampleCreateRequest])"
  using
    replicateWorkflowStarted_alreadyStarted_cases[of sampleCreateRequest "[]" "''run-0''"
      sampleExecutionInfo "\<lparr>WorkflowId = Some ''wf'', RunId = Some ''run-1''\<rparr>"
      "flushCurrentWorkflowBuffer 1 (alreadyStartedEnv ''run-0'' WorkflowStateRunning 10)"
      "alreadyStartedEnv ''run-0'' WorkflowStateRunning 10" 11 WorkflowStateRunning 10]
    replicateWorkflowStarted_alreadyStarted_cases[of sampleCreateRequest "[]" "''run-0''"
      sampleExecutionInfo "\<lparr>WorkflowId = Some ''wf'', RunId = Some ''run-1''\<rparr>"
      "flushCurrentWorkflowBuffer 1 (alreadyStartedEnv ''run-0'' WorkflowStateRunning 10)"
      "alreadyStartedEnv ''run-0'' WorkflowStateRunning 10" 10 WorkflowStateRunning 10]
    replicateWorkflowStarted_alreadyStarted_cases[of sampleCreateRequest "[]" "''run-0''"
      sampleExecutionInfo "\<lparr>WorkflowId = Some ''wf'', RunId = Some ''run-1''\<rparr>"
      "flushCurrentWorkflowBuffer 1 (alreadyStartedEnv ''run-0'' WorkflowStateCompleted 10)"
      "alreadyStartedEnv ''run-0'' WorkflowStateCompleted 10" 10 WorkflowStateCompleted 10]
    replicateWorkflowStarted_alreadyStarted_cases[of sampleCreateRequest "[]" "''run-1''"
      sampleExecutionInfo "\<lparr>WorkflowId = Some ''wf'', RunId = Some ''run-1''\<rparr>"
      "flushCurrentWorkflowBuffer 1 (alreadyStartedEnv ''run-1'' WorkflowStateRunning 10)"
      "alreadyStartedEnv ''run-1'' WorkflowStateRunning 10" 10 WorkflowStateRunning 10]
  by (simp add: Let_def sample_flush alreadyStartedEnv_answers sampleCreateRequest_def
        sampleExecutionInfo_def del: flushCurrentWorkflowBuffer.simps One_nat_def)

text \<open>
  Claim C6, as amended. After \<^verbatim>\<open>AppendHistoryEvents\<close> has succeeded, the appended history is
  deleted when the first create fails with an error other than
  \<open>WorkflowExecutionAlreadyStarted\<close>, and that error is returned; and it is deleted when the
  first create fails with \<open>WorkflowExecutionAlreadyStarted\<close> for another run whose start
  version is above the incoming version, and the task is dropped with success. When the
  other run is not completed, has the incoming version as its start version and the flush
  of its buffer returns without error, \<open>ErrRetryExistingWorkflow\<close> is returned and nothing
  is called after the flush: \<^verbatim>\<open>replicateWorkflowStarted\<close> issues no delete, and the history
  stays for the task when it is retried.
\<close>

theorem replicateWorkflowStarted_deleteHistory_paths:
  "(let req0 = req\<lparr>cw_ContinueAsNew := False, cw_PreviousRunID := []\<rparr>;
        tr1 = tr @ [ShardCreateWorkflowExecution req0];
        first = shard_CreateWorkflowExecution env tr1 req0;
        domainID = DomainID executionInfo;
        deleted = tr1 @ [HistoryMgrDeleteWorkflowExecutionHistory domainID execution];
        result = replicateWorkflowStarted_create flushCurrent env req executionInfo execution
                   incomingVersion tr
    in
      (\<forall>e. first = Err e \<and> \<not> isAlreadyStarted first \<longrightarrow> result = Some (Err e, deleted)) \<and>
      (\<forall>currentRunID currentState currentStartVersion.
         first = Err (PersistenceWorkflowExecutionAlreadyStartedError
                        currentRunID currentState currentStartVersion) \<and>
         Some currentRunID \<noteq> RunId execution \<and> currentStartVersion > incomingVersion \<longrightarrow>
           result = Some (Ok (), deleted)) \<and>
      (\<forall>currentRunID currentState flushed.
         first = Err (PersistenceWorkflowExecutionAlreadyStartedError
                        currentRunID currentState incomingVersion) \<and>
         Some currentRunID \<noteq> RunId execution \<and> currentState \<noteq> WorkflowStateCompleted \<and>
         flushCurrent domainID (case WorkflowId execution of None \<Rightarrow> [] | Some w \<Rightarrow> w) tr1
           = Some (Ok (), flushed) \<longrightarrow>
           result = Some (Err ErrRetryExistingWorkflow, flushed)))"
proof -
  let ?req0 = "req\<lparr>cw_ContinueAsNew := False, cw_PreviousRunID := []\<rparr>"
  let ?tr1 = "tr @ [ShardCreateWorkflowExecution ?req0]"
  let ?first = "shard_CreateWorkflowExecution env ?tr1 ?req0"
  let ?deleted = "?tr1 @ [HistoryMgrDeleteWorkflowExecutionHistory (DomainID executionInfo) execution]"
  let ?result = "replicateWorkflowStarted_create flushCurrent env req executionInfo execution
                   incomingVersion tr"
  have a: "\<forall>e. ?first = Err e \<and> \<not> isAlreadyStarted ?first \<longrightarrow> ?result = Some (Err e, ?deleted)"
  proof (intro allI impI)
    fix e assume h: "?first = Err e \<and> \<not> isAlreadyStarted ?first"
    then have h1: "?first = Err e" and h2: "\<not> isAlreadyStarted (Err e)"
      by auto
    then show "?result = Some (Err e, ?deleted)"
      by (cases e)
         (simp_all add: replicateWorkflowStarted_create_def createWorkflow_def deleteHistory_def
            Let_def)
  qed
  have b: "\<forall>currentRunID currentState currentStartVersion.
         ?first = Err (PersistenceWorkflowExecutionAlreadyStartedError
                        currentRunID currentState currentStartVersion) \<and>
         Some currentRunID \<noteq> RunId execution \<and> currentStartVersion > incomingVersion \<longrightarrow>
           ?result = Some (Ok (), ?deleted)"
    by (auto simp: replicateWorkflowStarted_create_def replicateWorkflowStarted_alreadyStarted_def
          createWorkflow_def deleteHistory_def Let_def)
  have c: "\<forall>currentRunID currentState flushed.
         ?first = Err (PersistenceWorkflowExecutionAlreadyStartedError
                        currentRunID currentState incomingVersion) \<and>
         Some currentRunID \<noteq> RunId execution \<and> currentState \<noteq> WorkflowStateCompleted \<and>
         flushCurrent (DomainID executionInfo)
           (case WorkflowId execution of None \<Rightarrow> [] | Some w \<Rightarrow> w) ?tr1
           = Some (Ok (), flushed) \<longrightarrow>
           ?result = Some (Err ErrRetryExistingWorkflow, flushed)"
    by (auto simp: replicateWorkflowStarted_create_def replicateWorkflowStarted_alreadyStarted_def
          createWorkflow_def Let_def)
  from a b c show ?thesis unfolding Let_def by blast
qed

theorem replicateWorkflowStarted_deleteHistory_paths_witness:
  "replicateWorkflowStarted_create
      (flushCurrentWorkflowBuffer 1 (alreadyStartedEnv ''run-0'' WorkflowStateRunning 12))
      (alreadyStartedEnv ''run-0'' WorkflowStateRunning 12)
      sampleCreateRequest sampleExecutionInfo
      \<lparr>WorkflowId = Some ''wf'', RunId = Some ''run-1''\<rparr> 11 []
     = Some (Ok (),
        [ShardCreateWorkflowExecution sampleCreateRequest,
         HistoryMgrDeleteWorkflowExecutionHistory ''domain''
           \<lparr>WorkflowId = Some ''wf'', RunId = Some ''run-1''\<rparr>]) \<and>
   replicateWorkflowStarted_create
      (flushCurrentWorkflowBuffer 1 sampleEnv)
      (sampleEnv\<lparr>shard_CreateWorkflowExecution := (\<lambda>tr r. Err ServiceBusyError)\<rparr>)
      sampleCreateRequest sampleExecutionInfo
      \<lparr>WorkflowId = Some ''wf'', RunId = Some ''run-1''\<rparr> 11 []
     = Some (Err ServiceBusyError,
        [ShardCreateWorkflowExecution sampleCreateRequest,
         HistoryMgrDeleteWorkflowExecutionHistory ''domain''
           \<lparr>WorkflowId = Some ''wf'', RunId = Some ''run-1''\<rparr>]) \<and>
   replicateWorkflowStarted_create
      (flushCurrentWorkflowBuffer 1 (alreadyStartedEnv ''run-0'' WorkflowStateRunning 11))
      (alreadyStartedEnv ''run-0'' WorkflowStateRunning 11)
      sampleCreateRequest sampleExecutionInfo
      \<lparr>WorkflowId = Some ''wf'', RunId = Some ''run-1''\<rparr> 11 []
     = Some (Err ErrRetryExistingWorkflow,
        [ShardCreateWorkflowExecution sampleCreateRequest,
         HistoryCacheGetOrCreateWorkflowExecution ''domain''
           \<lparr>WorkflowId = Some ''wf'', RunId = None\<rparr>,
         ContextLoadWorkflowExecution
           \<lparr>ctx_domainID = ''domain'',
            ctx_execution = \<lparr>WorkflowId = Some ''wf'', RunId = None\<rparr>\<rparr>,
         Release \<lparr>ctx_domainID = ''domain'',
                  ctx_execution = \<lparr>WorkflowId = Some ''wf'', RunId = None\<rparr>\<rparr> None])"
proof -
  have busy: "shard_CreateWorkflowExecution
                (sampleEnv\<lparr>shard_CreateWorkflowExecution := (\<lambda>tr r. Err ServiceBusyError)\<rparr>) t r
              = Err ServiceBusyError" for t r
    by simp
  show ?thesis
  using
    replicateWorkflowStarted_deleteHistory_paths[of sampleCreateRequest "[]"
      "alreadyStartedEnv ''run-0'' WorkflowStateRunning 12" sampleExecutionInfo
      "\<lparr>WorkflowId = Some ''wf'', RunId = Some ''run-1''\<rparr>"
      "flushCurrentWorkflowBuffer 1 (alreadyStartedEnv ''run-0'' WorkflowStateRunning 12)" 11]
    replicateWorkflowStarted_deleteHistory_paths[of sampleCreateRequest "[]"
      "sampleEnv\<lparr>shard_CreateWorkflowExecution := (\<lambda>tr r. Err ServiceBusyError)\<rparr>"
      sampleExecutionInfo "\<lparr>WorkflowId = Some ''wf'', RunId = Some ''run-1''\<rparr>"
      "flushCurrentWorkflowBuffer 1 sampleEnv" 11]
    replicateWorkflowStarted_deleteHistory_paths[of sampleCreateRequest "[]"
      "alreadyStartedEnv ''run-0'' WorkflowStateRunning 11" sampleExecutionInfo
      "\<lparr>WorkflowId = Some ''wf'', RunId = Some ''run-1''\<rparr>"
      "flushCurrentWorkflowBuffer 1 (alreadyStartedEnv ''run-0'' WorkflowStateRunning 11)" 11]
  by (simp add: Let_def sample_flush alreadyStartedEnv_answers busy sampleCreateRequest_def
        sampleExecutionInfo_def del: flushCurrentWorkflowBuffer.simps One_nat_def)
qed

text \<open>The claim as stated fails: with a running run of the same start version, whose
  buffer is empty, the start event's history is appended, the call returns
  \<open>ErrRetryExistingWorkflow\<close>, and no delete is issued, neither by
  \<^verbatim>\<open>replicateWorkflowStarted\<close> nor inside the flush.\<close>

theorem replicateWorkflowStarted_deleteHistory_counterexample:
  "map_option fst
     (replicateWorkflowStarted
        (flushCurrentWorkflowBuffer 1 (alreadyStartedEnv ''run-0'' WorkflowStateRunning 10))
        (alreadyStartedEnv ''run-0'' WorkflowStateRunning 10)
        sampleMutableState None ''active'' [sampleStartEvent 10] [] [] [])
     = Some (Err ErrRetryExistingWorkflow) \<and>
   list_ex isAppendHistoryCall
     (snd (snd (the (replicateWorkflowStarted
        (flushCurrentWorkflowBuffer 1 (alreadyStartedEnv ''run-0'' WorkflowStateRunning 10))
        (alreadyStartedEnv ''run-0'' WorkflowStateRunning 10)
        sampleMutableState None ''active'' [sampleStartEvent 10] [] [] [])))) \<and>
   \<not> list_ex isDeleteHistoryCall
     (snd (snd (the (replicateWorkflowStarted
        (flushCurrentWorkflowBuffer 1 (alreadyStartedEnv ''run-0'' WorkflowStateRunning 10))
        (alreadyStartedEnv ''run-0'' WorkflowStateRunning 10)
        sampleMutableState None ''active'' [sampleStartEvent 10] [] [] []))))"
proof -
  have env: "Serialize (alreadyStartedEnv r s v) h
               = Ok \<lparr>EncodingType = ''json'', Version = 1, BatchData = []\<rparr>"
            "shard_GetNextTransferTaskID (alreadyStartedEnv r s v) t = Ok (int (length t))"
            "shard_AppendHistoryEvents (alreadyStartedEnv r s v) t a = Ok ()"
            "setTaskInfo (alreadyStartedEnv r s v) cv ts tt ti = (tt, ti)"
    for r s v h t a cv ts tt ti
    by (simp_all add: alreadyStartedEnv_def sampleEnv_def)
  show ?thesis
    by (simp add: replicateWorkflowStarted_def replicateWorkflowStarted_create_def
        replicateWorkflowStarted_alreadyStarted_def createWorkflow_def Let_def
        sample_flush alreadyStartedEnv_answers env
        sampleMutableState_def sampleExecutionInfo_def
        sampleStartEvent_def GetExecutionInfo_def GetReplicationState_def GetCurrentVersion_def
        GetNextEventID_def del: flushCurrentWorkflowBuffer.simps One_nat_def)
qed
















end
